theory Spec2Isabelle
  imports Main
begin

unbundle bit_operations_syntax

section \<open>Python values, errors and the configuration store\<close>

text \<open>
  The module \<^verbatim>\<open>compiler/globals.py\<close> keeps the configuration in the attribute
  dictionary of one object, \<^verbatim>\<open>OPTS\<close>. A value stored there is \<^verbatim>\<open>None\<close>, a
  boolean, an integer, a string, or a reference to a mutable object (a list) that
  lives in the heap. Attribute dictionaries are maps from names to values; the
  items of a module's dictionary are an association list, in iteration order.
\<close>

datatype pyval = PNone | PBool bool | PInt int | PStr string | PObj nat

type_synonym pydict = "string \<rightharpoonup> pyval"
type_synonym pymodule = "(string \<times> pyval) list"

text \<open>
  Every exception the module can raise is a value. \<open>Fatal\<close> is the termination
  through \<^verbatim>\<open>debug.error\<close> and \<^verbatim>\<open>debug.check\<close>; \<open>OSError\<close> carries the
  \<^verbatim>\<open>errno\<close> (0 when the exception has none).
\<close>

datatype error =
    AttributeError string
  | KeyError string
  | TypeError
  | ValueError
  | ImportError string
  | OSError nat
  | Fatal string
  | SysExit int

definition sbind :: "error + 'a \<Rightarrow> ('a \<Rightarrow> error + 'b) \<Rightarrow> error + 'b" where
  "sbind m f = (case m of Inl e \<Rightarrow> Inl e | Inr x \<Rightarrow> f x)"

subsection \<open>Strings and POSIX path names\<close>

definition startswith :: "string \<Rightarrow> string \<Rightarrow> bool" where
  "startswith s pre = (take (length pre) s = pre)"

definition endswith :: "string \<Rightarrow> string \<Rightarrow> bool" where
  "endswith s suf = (length suf \<le> length s \<and> drop (length s - length suf) s = suf)"

text \<open>\<^verbatim>\<open>s.split(c)\<close> for a one-character separator.\<close>

fun split_on :: "char \<Rightarrow> string \<Rightarrow> string list" where
  "split_on sep [] = [[]]"
| "split_on sep (c # cs) =
     (if c = sep then [] # split_on sep cs
      else (case split_on sep cs of [] \<Rightarrow> [[c]] | x # xs \<Rightarrow> (c # x) # xs))"

definition rstrip_slash :: "string \<Rightarrow> string" where
  "rstrip_slash s = rev (dropWhile (\<lambda>c. c = CHR ''/'') (rev s))"

text \<open>\<^verbatim>\<open>posixpath.split\<close>, \<^verbatim>\<open>dirname\<close>, \<^verbatim>\<open>basename\<close>, \<^verbatim>\<open>join\<close> of two parts.\<close>

definition posix_split :: "string \<Rightarrow> string \<times> string" where
  "posix_split p =
     (let tail = rev (takeWhile (\<lambda>c. c \<noteq> CHR ''/'') (rev p));
          head = rev (dropWhile (\<lambda>c. c \<noteq> CHR ''/'') (rev p))
      in (if rstrip_slash head = [] then head else rstrip_slash head, tail))"

definition dirname :: "string \<Rightarrow> string" where
  "dirname p = fst (posix_split p)"

definition basename :: "string \<Rightarrow> string" where
  "basename p = snd (posix_split p)"

definition join :: "string \<Rightarrow> string \<Rightarrow> string" where
  "join a b =
     (if startswith b ''/'' then b
      else if a = [] \<or> endswith a ''/'' then a @ b
      else a @ ''/'' @ b)"

text \<open>
  \<^verbatim>\<open>re.sub(r'\.py$', "", s)\<close>: the suffix is removed at the end of the string, or
  just before a newline that ends the string.
\<close>

definition strip_py :: "string \<Rightarrow> string" where
  "strip_py s =
     (if endswith s ''.py'' then take (length s - 3) s
      else if endswith s (''.py'' @ [CHR 0x0A]) then take (length s - 4) s @ [CHR 0x0A]
      else s)"

text \<open>
  One step of the component stack shared by \<^verbatim>\<open>normpath\<close> of an absolute name and
  by the resolution of a name in the file system: empty components and \<^verbatim>\<open>.\<close> are
  skipped, \<^verbatim>\<open>..\<close> drops the last component (and stays at the root).
\<close>

definition push_comp :: "string list \<Rightarrow> string \<Rightarrow> string list" where
  "push_comp st c =
     (if c = [] \<or> c = ''.'' then st
      else if c = ''..'' then butlast st
      else st @ [c])"

definition join_comps :: "string list \<Rightarrow> string" where
  "join_comps cs = (if cs = [] then ''/'' else concat (map (\<lambda>c. CHR ''/'' # c) cs))"

text \<open>Decimal digits of \<^verbatim>\<open>str(n)\<close>.\<close>

fun str_of_nat :: "nat \<Rightarrow> string" where
  "str_of_nat n =
     (if n < 10 then [''0123456789'' ! n]
      else str_of_nat (n div 10) @ [''0123456789'' ! (n mod 10)])"

declare str_of_nat.simps [simp del]

subsection \<open>The file system\<close>

text \<open>
  A tree of nodes. A directory lists its entries by name; a symbolic link holds
  the node that following it reaches (\<open>None\<close> when it dangles); \<open>Special\<close> is a
  FIFO, socket or device. Permission bits are stored and changed but do not
  forbid an operation: the process is taken to own every node it touches.
  Error numbers: 2 \<^verbatim>\<open>ENOENT\<close>, 16 \<^verbatim>\<open>EBUSY\<close>, 17 \<^verbatim>\<open>EEXIST\<close>, 20 \<^verbatim>\<open>ENOTDIR\<close>,
  21 \<^verbatim>\<open>EISDIR\<close>.
\<close>

datatype node =
    File int
  | Dir int "(string \<times> node) list"
  | Symlink "node option"
  | Special int

fun is_dir :: "node \<Rightarrow> bool" where
  "is_dir (Dir m es) = True"
| "is_dir n = False"

fun is_file :: "node \<Rightarrow> bool" where
  "is_file (File m) = True"
| "is_file n = False"

fun is_symlink :: "node \<Rightarrow> bool" where
  "is_symlink (Symlink t) = True"
| "is_symlink n = False"


fun mode_of :: "node \<Rightarrow> int" where
  "mode_of (File m) = m"
| "mode_of (Dir m es) = m"
| "mode_of (Special m) = m"
| "mode_of (Symlink t) = 511"

fun set_mode :: "int \<Rightarrow> node \<Rightarrow> node" where
  "set_mode m (File m') = File m"
| "set_mode m (Dir m' es) = Dir m es"
| "set_mode m (Special m') = Special m"
| "set_mode m (Symlink t) = Symlink t"

fun add_entry :: "string \<Rightarrow> node \<Rightarrow> node \<Rightarrow> node" where
  "add_entry name n (Dir m es) = Dir m (es @ [(name, n)])"
| "add_entry name n d = d"

fun del_entry :: "string \<Rightarrow> node \<Rightarrow> node" where
  "del_entry name (Dir m es) = Dir m (filter (\<lambda>e. fst e \<noteq> name) es)"
| "del_entry name d = d"

text \<open>\<open>walk\<close> follows every link on the way and at the end (\<^verbatim>\<open>stat\<close>).\<close>

fun walk :: "node \<Rightarrow> string list \<Rightarrow> nat + node"
and walk_entries :: "(string \<times> node) list \<Rightarrow> string \<Rightarrow> string list \<Rightarrow> nat + node" where
  "walk (Symlink None) cs = Inl 2"
| "walk (Symlink (Some t)) cs = walk t cs"
| "walk (Dir m es) [] = Inr (Dir m es)"
| "walk (Dir m es) (c # cs) = walk_entries es c cs"
| "walk (File m) [] = Inr (File m)"
| "walk (File m) (c # cs) = Inl 20"
| "walk (Special m) [] = Inr (Special m)"
| "walk (Special m) (c # cs) = Inl 20"
| "walk_entries [] c cs = Inl 2"
| "walk_entries ((k, e) # es) c cs = (if k = c then walk e cs else walk_entries es c cs)"

text \<open>\<open>lwalk\<close> does not follow a link that is the last component (\<^verbatim>\<open>lstat\<close>).\<close>

fun lwalk :: "node \<Rightarrow> string list \<Rightarrow> nat + node"
and lwalk_entries :: "(string \<times> node) list \<Rightarrow> string \<Rightarrow> string list \<Rightarrow> nat + node" where
  "lwalk n [] = Inr n"
| "lwalk (Symlink None) (c # cs) = Inl 2"
| "lwalk (Symlink (Some t)) (c # cs) = lwalk t (c # cs)"
| "lwalk (Dir m es) (c # cs) = lwalk_entries es c cs"
| "lwalk (File m) (c # cs) = Inl 20"
| "lwalk (Special m) (c # cs) = Inl 20"
| "lwalk_entries [] c cs = Inl 2"
| "lwalk_entries ((k, e) # es) c cs = (if k = c then lwalk e cs else lwalk_entries es c cs)"

text \<open>\<open>update_at n cs f\<close> replaces the node that \<open>walk n cs\<close> reaches by its image.\<close>

fun update_at :: "node \<Rightarrow> string list \<Rightarrow> (node \<Rightarrow> node) \<Rightarrow> node"
and update_entries ::
  "(string \<times> node) list \<Rightarrow> string \<Rightarrow> string list \<Rightarrow> (node \<Rightarrow> node) \<Rightarrow> (string \<times> node) list" where
  "update_at (Symlink None) cs f = Symlink None"
| "update_at (Symlink (Some t)) cs f = Symlink (Some (update_at t cs f))"
| "update_at (Dir m es) [] f = f (Dir m es)"
| "update_at (Dir m es) (c # cs) f = Dir m (update_entries es c cs f)"
| "update_at (File m) [] f = f (File m)"
| "update_at (File m) (c # cs) f = File m"
| "update_at (Special m) [] f = f (Special m)"
| "update_at (Special m) (c # cs) f = Special m"
| "update_entries [] c cs f = []"
| "update_entries ((k, e) # es) c cs f =
     (if k = c then (k, update_at e cs f) # es else (k, e) # update_entries es c cs f)"

subsection \<open>The process state\<close>

text \<open>
  Everything the module reads or writes. \<open>opts\<close> is \<^verbatim>\<open>OPTS.__dict__\<close>;
  \<open>checkpoint\<close> is \<^verbatim>\<open>CHECKPOINT_OPTS\<close> (\<open>None\<close>, or the attribute dictionary of
  the copy). Three parts stand for files that are not in the sources at hand
  and are parameters of the model: \<open>class_defaults\<close> (the class attributes of
  \<^verbatim>\<open>options.options\<close>), \<open>module_files\<close> (what executing the module of a given
  name found in a given directory of \<^verbatim>\<open>sys.path\<close> defines, or the exception it
  raises) and \<open>tech_spice\<close> (the three entries of \<^verbatim>\<open>tech.spice\<close> that
  \<^verbatim>\<open>import_tech\<close> reads). \<open>executed\<close> records each module file that an import
  has run, most recent first. What a module does when it runs, other than
  define its attributes, and the output on \<^verbatim>\<open>stdout\<close> are not part of the state.
\<close>

record world =
  opts :: pydict
  class_defaults :: pydict
  checkpoint :: "pydict option"
  heap :: "nat \<rightharpoonup> pyval list"
  obj_str :: "nat \<Rightarrow> string"
  environ :: "string \<rightharpoonup> string"
  passwd :: "string \<rightharpoonup> string"
  cwd :: "string list"
  umask :: int
  fs :: node
  sys_path :: "string list"
  sys_modules :: "string \<rightharpoonup> pymodule"
  module_files :: "string \<Rightarrow> string \<rightharpoonup> (error + pymodule)"
  executed :: "string list"
  tech_spice :: pydict
  name_map :: "pyval list"
  py_version :: "nat \<times> nat"

text \<open>
  Modelled from the spec: \<^verbatim>\<open>debug.error\<close> and \<^verbatim>\<open>debug.check\<close> belong to the
  module \<^verbatim>\<open>debug\<close>, which is not among the sources. Section 7 of the
  specification makes every condition they report fatal: the message is printed
  and the process ends with a non-zero exit status. The second argument that
  some calls of \<^verbatim>\<open>debug.error\<close> give has no part in this.
\<close>

definition debug_error :: "string \<Rightarrow> error + 'a" where
  "debug_error msg = Inl (Fatal msg)"

text \<open>
  Modelled from the spec: \<^verbatim>\<open>debug.check(ok, msg)\<close>, of the same module, ends the
  process in the same way when \<open>ok\<close> is false (section 4.5: a directory that
  does not exist is fatal).
\<close>

definition debug_check :: "bool \<Rightarrow> string \<Rightarrow> error + unit" where
  "debug_check ok msg = (if ok then Inr () else Inl (Fatal msg))"

subsection \<open>Attributes of \<^verbatim>\<open>OPTS\<close> and Python's view of values\<close>

definition getattr :: "world \<Rightarrow> string \<Rightarrow> error + pyval" where
  "getattr w k =
     (case opts w k of
        Some v \<Rightarrow> Inr v
      | None \<Rightarrow> (case class_defaults w k of
                   Some v \<Rightarrow> Inr v
                 | None \<Rightarrow> Inl (AttributeError k)))"

definition setattr :: "world \<Rightarrow> string \<Rightarrow> pyval \<Rightarrow> world" where
  "setattr w k v = w\<lparr>opts := (opts w)(k \<mapsto> v)\<rparr>"

fun truthy :: "world \<Rightarrow> pyval \<Rightarrow> bool" where
  "truthy w PNone = False"
| "truthy w (PBool b) = b"
| "truthy w (PInt i) = (i \<noteq> 0)"
| "truthy w (PStr s) = (s \<noteq> [])"
| "truthy w (PObj a) = (case heap w a of Some xs \<Rightarrow> xs \<noteq> [] | None \<Rightarrow> True)"


fun py_str :: "world \<Rightarrow> pyval \<Rightarrow> string" where
  "py_str w PNone = ''None''"
| "py_str w (PBool b) = (if b then ''True'' else ''False'')"
| "py_str w (PInt i) = (if i < 0 then CHR ''-'' # str_of_nat (nat (- i)) else str_of_nat (nat i))"
| "py_str w (PStr s) = s"
| "py_str w (PObj a) = obj_str w a"

text \<open>A string method on a value that is not a string raises \<^verbatim>\<open>AttributeError\<close>.\<close>

fun str_method :: "string \<Rightarrow> pyval \<Rightarrow> error + string" where
  "str_method name (PStr s) = Inr s"
| "str_method name v = Inl (AttributeError name)"

subsection \<open>Operating-system calls\<close>

definition getcwd :: "world \<Rightarrow> string" where
  "getcwd w = join_comps (cwd w)"

text \<open>
  A name is resolved by its components, lexically. A name that ends in a
  separator, in \<^verbatim>\<open>.\<close> or in \<^verbatim>\<open>..\<close> must reach a directory.
\<close>

definition resolve :: "world \<Rightarrow> string \<Rightarrow> string list" where
  "resolve w p =
     foldl push_comp (if startswith p ''/'' then [] else cwd w) (split_on CHR ''/'' p)"

definition must_dir :: "string \<Rightarrow> bool" where
  "must_dir p = (last (split_on CHR ''/'' p) \<in> {[], ''.'', ''..''})"

definition stat :: "world \<Rightarrow> string \<Rightarrow> nat + node" where
  "stat w p =
     (if p = [] then Inl 2
      else (case walk (fs w) (resolve w p) of
              Inl e \<Rightarrow> Inl e
            | Inr n \<Rightarrow> if must_dir p \<and> \<not> is_dir n then Inl 20 else Inr n))"

definition lstat :: "world \<Rightarrow> string \<Rightarrow> nat + node" where
  "lstat w p =
     (if p = [] then Inl 2
      else if must_dir p then stat w p
      else lwalk (fs w) (resolve w p))"

definition path_exists :: "world \<Rightarrow> string \<Rightarrow> bool" where
  "path_exists w p = (case stat w p of Inl e \<Rightarrow> False | Inr n \<Rightarrow> True)"

definition isdir :: "world \<Rightarrow> string \<Rightarrow> bool" where
  "isdir w p = (case stat w p of Inl e \<Rightarrow> False | Inr n \<Rightarrow> is_dir n)"

definition isfile :: "world \<Rightarrow> string \<Rightarrow> bool" where
  "isfile w p = (case stat w p of Inl e \<Rightarrow> False | Inr n \<Rightarrow> is_file n)"

definition islink :: "world \<Rightarrow> string \<Rightarrow> bool" where
  "islink w p = (case lstat w p of Inl e \<Rightarrow> False | Inr n \<Rightarrow> is_symlink n)"

text \<open>\<^verbatim>\<open>os.access(p, os.X_OK)\<close>: the owner's execute bit of the node reached.\<close>

definition access_x :: "world \<Rightarrow> string \<Rightarrow> bool" where
  "access_x w p = (case stat w p of Inl e \<Rightarrow> False | Inr n \<Rightarrow> mode_of n AND 64 \<noteq> 0)"

definition mkdir :: "world \<Rightarrow> string \<Rightarrow> int \<Rightarrow> error + world" where
  "mkdir w p m =
     (if p = [] then Inl (OSError 2)
      else if last (split_on CHR ''/'' p) \<in> {''.'', ''..''} then
        (case stat w p of Inl e \<Rightarrow> Inl (OSError e) | Inr n \<Rightarrow> Inl (OSError 17))
      else (case resolve w p of
              [] \<Rightarrow> Inl (OSError 17)
            | c # cs \<Rightarrow>
                (case walk (fs w) (butlast (c # cs)) of
                   Inl e \<Rightarrow> Inl (OSError e)
                 | Inr (Dir dm es) \<Rightarrow>
                     if map_of es (last (c # cs)) = None
                     then Inr (w\<lparr>fs := update_at (fs w) (butlast (c # cs))
                                 (add_entry (last (c # cs)) (Dir (m AND NOT (umask w) AND 511) []))\<rparr>)
                     else Inl (OSError 17)
                 | Inr other \<Rightarrow> Inl (OSError 20))))"

definition chmod :: "world \<Rightarrow> string \<Rightarrow> int \<Rightarrow> error + world" where
  "chmod w p m =
     (case stat w p of
        Inl e \<Rightarrow> Inl (OSError e)
      | Inr n \<Rightarrow> Inr (w\<lparr>fs := update_at (fs w) (resolve w p) (set_mode (m AND 4095))\<rparr>))"

definition listdir :: "world \<Rightarrow> string \<Rightarrow> error + string list" where
  "listdir w p =
     (case stat w p of
        Inl e \<Rightarrow> Inl (OSError e)
      | Inr (Dir m es) \<Rightarrow> Inr (map fst es)
      | Inr other \<Rightarrow> Inl (OSError 20))"

text \<open>\<^verbatim>\<open>os.remove\<close>: the entry itself goes, a link is not followed.\<close>

definition remove :: "world \<Rightarrow> string \<Rightarrow> error + world" where
  "remove w p =
     (case lstat w p of
        Inl e \<Rightarrow> Inl (OSError e)
      | Inr (Dir m es) \<Rightarrow> Inl (OSError 21)
      | Inr other \<Rightarrow>
          if must_dir p then Inl (OSError 20)
          else Inr (w\<lparr>fs := update_at (fs w) (butlast (resolve w p))
                       (del_entry (last (resolve w p)))\<rparr>))"

text \<open>
  \<^verbatim>\<open>shutil.rmtree\<close> without \<^verbatim>\<open>ignore_errors\<close>: it refuses a symbolic link, fails on
  what is not a directory, and removes a directory with all it holds.
\<close>

definition rmtree :: "world \<Rightarrow> string \<Rightarrow> error + world" where
  "rmtree w p =
     (if islink w p then Inl (OSError 0)
      else (case lstat w p of
              Inl e \<Rightarrow> Inl (OSError e)
            | Inr (Dir m es) \<Rightarrow>
                if resolve w p = [] then Inl (OSError 16)
                else Inr (w\<lparr>fs := update_at (fs w) (butlast (resolve w p))
                             (del_entry (last (resolve w p)))\<rparr>)
            | Inr other \<Rightarrow> Inl (OSError 20)))"

subsection \<open>Library functions of Python\<close>

fun join_with :: "string \<Rightarrow> string list \<Rightarrow> string" where
  "join_with sep [] = []"
| "join_with sep [x] = x"
| "join_with sep (x # y # ys) = x @ sep @ join_with sep (y # ys)"

text \<open>The loop body of \<^verbatim>\<open>posixpath.normpath\<close>.\<close>

definition norm_comp :: "bool \<Rightarrow> string list \<Rightarrow> string \<Rightarrow> string list" where
  "norm_comp rooted st c =
     (if c = [] \<or> c = ''.'' then st
      else if (\<not> rooted \<and> st = []) \<or> (st \<noteq> [] \<and> last st = ''..'') \<or> c \<noteq> ''..'' then st @ [c]
      else if st \<noteq> [] then butlast st
      else st)"

definition normpath :: "string \<Rightarrow> string" where
  "normpath p =
     (if p = [] then ''.''
      else (let slashes = (if startswith p ''//'' \<and> \<not> startswith p ''///'' then 2
                           else if startswith p ''/'' then 1 else (0::nat));
                comps = foldl (norm_comp (0 < slashes)) [] (split_on CHR ''/'' p);
                r = replicate slashes CHR ''/'' @ join_with ''/'' comps
            in if r = [] then ''.'' else r))"

definition abspath :: "world \<Rightarrow> string \<Rightarrow> string" where
  "abspath w p = normpath (if startswith p ''/'' then p else join (getcwd w) p)"

text \<open>
  \<^verbatim>\<open>posixpath.expanduser\<close>: \<open>passwd\<close> maps a user name to its home directory, the
  empty name standing for the user of the process.
\<close>

definition expanduser :: "world \<Rightarrow> string \<Rightarrow> string" where
  "expanduser w p =
     (if \<not> startswith p ''~'' then p
      else (let name = takeWhile (\<lambda>c. c \<noteq> CHR ''/'') (tl p);
                rest = dropWhile (\<lambda>c. c \<noteq> CHR ''/'') (tl p);
                home = (if name = [] then
                          (case environ w ''HOME'' of Some h \<Rightarrow> Some h | None \<Rightarrow> passwd w [])
                        else passwd w name)
            in (case home of
                  None \<Rightarrow> p
                | Some h \<Rightarrow> if rstrip_slash h @ rest = [] then ''/'' else rstrip_slash h @ rest)))"

text \<open>
  \<^verbatim>\<open>os.makedirs(name, mode)\<close>, as the library writes it: the name is split, a
  missing head is made first (with the default mode from Python 3.7 on, with
  \<open>mode\<close> before), an \<^verbatim>\<open>EEXIST\<close> of that step is ignored, and the leaf is made
  by \<^verbatim>\<open>mkdir\<close>, whose error is raised.
\<close>

definition makedirs_split :: "string \<Rightarrow> string \<times> string" where
  "makedirs_split name =
     (if snd (posix_split name) = [] then posix_split (fst (posix_split name))
      else posix_split name)"

lemma length_rstrip_slash: "length (rstrip_slash s) \<le> length s"
  by (simp add: rstrip_slash_def length_dropWhile_le [of _ "rev s", simplified])

lemma posix_split_length:
  "length (fst (posix_split p)) + length (snd (posix_split p)) \<le> length p"
proof -
  let ?h = "rev (dropWhile (\<lambda>c. c \<noteq> CHR ''/'') (rev p))"
  let ?t = "rev (takeWhile (\<lambda>c. c \<noteq> CHR ''/'') (rev p))"
  have "length ?h + length ?t = length (rev p)"
    using takeWhile_dropWhile_id [of "\<lambda>c. c \<noteq> CHR ''/''" "rev p"]
    by (metis add.commute length_append length_rev)
  moreover have "length (fst (posix_split p)) \<le> length ?h"
    using length_rstrip_slash [of ?h] by (simp add: posix_split_def Let_def)
  moreover have "snd (posix_split p) = ?t"
    by (simp add: posix_split_def Let_def)
  ultimately show ?thesis by simp
qed

lemma makedirs_split_shorter:
  "snd (makedirs_split name) \<noteq> [] \<Longrightarrow> length (fst (makedirs_split name)) < length name"
proof -
  assume a: "snd (makedirs_split name) \<noteq> []"
  show ?thesis
  proof (cases "snd (posix_split name) = []")
    case True
    then have eq: "makedirs_split name = posix_split (fst (posix_split name))"
      by (simp add: makedirs_split_def)
    have "length (fst (posix_split (fst (posix_split name))))
            + length (snd (posix_split (fst (posix_split name))))
          \<le> length (fst (posix_split name))"
      by (rule posix_split_length)
    moreover have "length (fst (posix_split name)) \<le> length name"
      using posix_split_length [of name] by simp
    moreover have "1 \<le> length (snd (posix_split (fst (posix_split name))))"
      using a eq by (cases "snd (posix_split (fst (posix_split name)))") auto
    ultimately show ?thesis unfolding eq by linarith
  next
    case False
    then have eq: "makedirs_split name = posix_split name"
      by (simp add: makedirs_split_def)
    have "1 \<le> length (snd (posix_split name))"
      using False by (cases "snd (posix_split name)") auto
    then show ?thesis using posix_split_length [of name] unfolding eq by linarith
  qed
qed

function makedirs :: "world \<Rightarrow> string \<Rightarrow> int \<Rightarrow> error + world" where
  "makedirs w name m =
     (if fst (makedirs_split name) \<noteq> [] \<and> snd (makedirs_split name) \<noteq> []
         \<and> \<not> path_exists w (fst (makedirs_split name))
      then (case makedirs w (fst (makedirs_split name))
                   (if 7 \<le> snd (py_version w) then 511 else m) of
              Inl e \<Rightarrow>
                if e = OSError 17
                then (if snd (makedirs_split name) = ''.'' then Inr w else mkdir w name m)
                else Inl e
            | Inr w' \<Rightarrow>
                if snd (makedirs_split name) = ''.'' then Inr w' else mkdir w' name m)
      else mkdir w name m)"
  by pat_completeness auto
termination
  by (relation "measure (\<lambda>(w, name, m). length name)") (auto simp: makedirs_split_shorter)

declare makedirs.simps [simp del]

text \<open>
  \<^verbatim>\<open>importlib.import_module\<close>: a module already in \<^verbatim>\<open>sys.modules\<close> is returned as
  it is; otherwise the first directory of \<^verbatim>\<open>sys.path\<close> that holds the module
  decides, and the module file is executed.
\<close>

fun find_module ::
  "(string \<Rightarrow> string \<rightharpoonup> (error + pymodule)) \<Rightarrow> string list \<Rightarrow> string \<Rightarrow> (error + pymodule) option" where
  "find_module files [] name = None"
| "find_module files (d # ds) name =
     (case files d name of Some r \<Rightarrow> Some r | None \<Rightarrow> find_module files ds name)"

definition import_module :: "world \<Rightarrow> string \<Rightarrow> error + (pymodule \<times> world)" where
  "import_module w name =
     (if name = [] then Inl ValueError
      else if startswith name ''.'' then Inl TypeError
      else (case sys_modules w name of
              Some m \<Rightarrow> Inr (m, w)
            | None \<Rightarrow>
                (case find_module (module_files w) (sys_path w) name of
                   None \<Rightarrow> Inl (ImportError name)
                 | Some (Inl e) \<Rightarrow> Inl e
                 | Some (Inr m) \<Rightarrow>
                     Inr (m, w\<lparr>sys_modules := (sys_modules w)(name \<mapsto> m),
                               executed := name # executed w\<rparr>))))"

section \<open>The functions of \<^verbatim>\<open>globals.py\<close>\<close>

subsection \<open>\<^verbatim>\<open>parse_args\<close>\<close>

text \<open>
  The command line as \<^verbatim>\<open>optparse\<close> has recognised it: one element per option
  given, in order. Each sets one attribute of \<^verbatim>\<open>OPTS\<close>, the object passed as
  \<^verbatim>\<open>values\<close>; no default is applied to an option that is not given.
\<close>

datatype cli_opt =
    Backannotated
  | Output string
  | Outpath string
  | Nocheck
  | Verbose
  | Tech string
  | Spice string
  | RemoveNetlistTrimming
  | Characterize
  | Dontpurge

fun apply_opt :: "world \<Rightarrow> cli_opt \<Rightarrow> error + world" where
  "apply_opt w Backannotated = Inr (setattr w ''run_pex'' (PBool True))"
| "apply_opt w (Output s) = Inr (setattr w ''output_name'' (PStr s))"
| "apply_opt w (Outpath s) = Inr (setattr w ''output_path'' (PStr s))"
| "apply_opt w Nocheck = Inr (setattr w ''check_lvsdrc'' (PBool False))"
| "apply_opt w Verbose =
     (case getattr w ''debug_level'' of
        Inl e \<Rightarrow> Inr (setattr w ''debug_level'' (PInt 1))
      | Inr PNone \<Rightarrow> Inr (setattr w ''debug_level'' (PInt 1))
      | Inr (PInt i) \<Rightarrow> Inr (setattr w ''debug_level'' (PInt (i + 1)))
      | Inr (PBool b) \<Rightarrow> Inr (setattr w ''debug_level'' (PInt (of_bool b + 1)))
      | Inr other \<Rightarrow> Inl TypeError)"
| "apply_opt w (Tech s) = Inr (setattr w ''tech_name'' (PStr s))"
| "apply_opt w (Spice s) = Inr (setattr w ''spice_name'' (PStr s))"
| "apply_opt w RemoveNetlistTrimming = Inr (setattr w ''trim_netlist'' (PBool False))"
| "apply_opt w Characterize = Inr (setattr w ''analytical_delay'' (PBool False))"
| "apply_opt w Dontpurge = Inr (setattr w ''purge_temp'' (PBool False))"

fun apply_opts :: "world \<Rightarrow> cli_opt list \<Rightarrow> error + world" where
  "apply_opts w [] = Inr w"
| "apply_opts w (x # xs) = sbind (apply_opt w x) (\<lambda>w'. apply_opts w' xs)"

text \<open>Lines 58 to 62: the two rewrites of the technology name.\<close>

definition alias_tech :: "world \<Rightarrow> error + world" where
  "alias_tech w =
     sbind (getattr w ''tech_name'') (\<lambda>v.
       (let w1 = (if v = PStr [] then setattr w ''tech_name'' (PStr ''scmos'') else w)
        in sbind (getattr w1 ''tech_name'') (\<lambda>v1.
             Inr (if v1 = PStr ''scmos'' then setattr w1 ''tech_name'' (PStr ''scn3me_subm'')
                  else w1))))"

definition parse_args :: "world \<Rightarrow> cli_opt list \<Rightarrow> string list \<Rightarrow> error + (world \<times> string list)" where
  "parse_args w cli args =
     sbind (apply_opts w cli) (\<lambda>w1. sbind (alias_tech w1) (\<lambda>w2. Inr (w2, args)))"

subsection \<open>\<^verbatim>\<open>check_versions\<close>\<close>

definition check_versions :: "world \<Rightarrow> error + world" where
  "check_versions w =
     (if fst (py_version w) = 3 \<and> 5 \<le> snd (py_version w) then Inr w
      else debug_error ''Python 3.5 or greater is required.'')"

subsection \<open>\<^verbatim>\<open>is_exe\<close>, \<^verbatim>\<open>find_exe\<close>, \<^verbatim>\<open>get_tool\<close>\<close>

definition is_exe :: "world \<Rightarrow> string \<Rightarrow> bool" where
  "is_exe w fpath = (path_exists w fpath \<and> access_x w fpath)"

fun find_in_dirs :: "world \<Rightarrow> string list \<Rightarrow> string \<Rightarrow> string option" where
  "find_in_dirs w [] check_exe = None"
| "find_in_dirs w (path # paths) check_exe =
     (if is_exe w (join path check_exe) then Some (join path check_exe)
      else find_in_dirs w paths check_exe)"

definition find_exe :: "world \<Rightarrow> string \<Rightarrow> error + string option" where
  "find_exe w check_exe =
     (case environ w ''PATH'' of
        None \<Rightarrow> Inl (KeyError ''PATH'')
      | Some p \<Rightarrow> Inr (find_in_dirs w (split_on CHR '':'' p) check_exe))"

text \<open>The \<^verbatim>\<open>for\<close> loop of \<^verbatim>\<open>get_tool\<close> with its \<^verbatim>\<open>else\<close> clause.\<close>

fun first_preference :: "world \<Rightarrow> string list \<Rightarrow> error + (string option \<times> string)" where
  "first_preference w [] = Inr (None, [])"
| "first_preference w (name # names) =
     sbind (find_exe w name) (\<lambda>r.
       case r of Some exe \<Rightarrow> Inr (Some name, exe) | None \<Rightarrow> first_preference w names)"

definition get_tool ::
  "world \<Rightarrow> string \<Rightarrow> string list \<Rightarrow> string option \<Rightarrow> error + (string option \<times> string)" where
  "get_tool w tool_type preferences default_name =
     (case default_name of
        None \<Rightarrow> first_preference w preferences
      | Some d \<Rightarrow>
          if d = [] then first_preference w preferences
          else sbind (find_exe w d) (\<lambda>r.
                 case r of
                   None \<Rightarrow> debug_error (d @ '' not found. Cannot find '' @ tool_type @ '' tool.'')
                 | Some exe \<Rightarrow> Inr (Some d, exe)))"

subsection \<open>\<^verbatim>\<open>cleanup_paths\<close> and \<^verbatim>\<open>setup_paths\<close>\<close>

text \<open>The loop over \<^verbatim>\<open>contents\<close>, lines 268 to 272.\<close>

fun purge_contents :: "world \<Rightarrow> string list \<Rightarrow> error + world" where
  "purge_contents w [] = Inr w"
| "purge_contents w (i # rest) =
     sbind (if isfile w i \<or> islink w i then remove w i else rmtree w i)
       (\<lambda>w'. purge_contents w' rest)"

definition cleanup_paths :: "world \<Rightarrow> error + world" where
  "cleanup_paths w =
     sbind (getattr w ''purge_temp'') (\<lambda>purge.
       sbind (getattr w ''openram_temp'') (\<lambda>temp.
         if \<not> truthy w purge then Inr w
         else (case temp of
                 PStr t \<Rightarrow>
                   if path_exists w t
                   then sbind (listdir w t) (\<lambda>names. purge_contents w (map (join t) names))
                   else Inr w
               | other \<Rightarrow> Inl TypeError)))"

text \<open>The idiom \<^verbatim>\<open>if not OPTS.k.endswith('/'): OPTS.k += "/"\<close>.\<close>

definition add_trailing_slash :: "world \<Rightarrow> string \<Rightarrow> error + world" where
  "add_trailing_slash w k =
     sbind (getattr w k) (\<lambda>v.
       sbind (str_method ''endswith'' v) (\<lambda>s.
         Inr (if endswith s ''/'' then w else setattr w k (PStr (s @ ''/'')))))"

text \<open>Lines 282 to 286, and the loop of lines 290 to 294.\<close>

definition openram_home :: "world \<Rightarrow> error + string" where
  "openram_home w =
     (case environ w ''OPENRAM_HOME'' of
        None \<Rightarrow> debug_error ''$OPENRAM_HOME is not properly defined.''
      | Some h \<Rightarrow>
          sbind (debug_check (isdir w (abspath w h))
                   (''$OPENRAM_HOME does not exist: '' @ abspath w h))
            (\<lambda>u. Inr (abspath w h)))"

fun add_subdirs :: "world \<Rightarrow> string \<Rightarrow> string list \<Rightarrow> error + world" where
  "add_subdirs w home [] = Inr w"
| "add_subdirs w home (subdir # rest) =
     sbind (debug_check (isdir w (home @ ''/'' @ subdir))
              (''$OPENRAM_HOME/'' @ subdir @ '' does not exist: '' @ home @ ''/'' @ subdir))
       (\<lambda>u. add_subdirs (w\<lparr>sys_path := sys_path w @ [home @ ''/'' @ subdir]\<rparr>) home rest)"

text \<open>Lines 303 to 307: only \<^verbatim>\<open>OSError\<close> is caught, and only \<^verbatim>\<open>EEXIST\<close> acted on.\<close>

definition make_temp_dir :: "world \<Rightarrow> error + world" where
  "make_temp_dir w =
     sbind (getattr w ''openram_temp'') (\<lambda>v.
       case v of
         PStr p \<Rightarrow>
           (case makedirs w p 488 of
              Inr w' \<Rightarrow> Inr w'
            | Inl (OSError e) \<Rightarrow> if e = 17 then chmod w p 488 else Inr w
            | Inl other \<Rightarrow> Inl other)
       | other \<Rightarrow> Inl TypeError)"

definition setup_paths :: "world \<Rightarrow> error + world" where
  "setup_paths w =
     sbind (openram_home w) (\<lambda>home.
       sbind (add_subdirs w home [''gdsMill'', ''tests'', ''modules'', ''base'', ''pgates'']) (\<lambda>w1.
         sbind (add_trailing_slash w1 ''openram_temp'') (\<lambda>w2.
           sbind (cleanup_paths w2) make_temp_dir)))"

subsection \<open>\<^verbatim>\<open>read_config\<close>\<close>

text \<open>Lines 181 to 198: the name of the module, the search path, the import.\<close>

definition load_config :: "world \<Rightarrow> string \<Rightarrow> error + (pymodule \<times> world)" where
  "load_config w config_file =
     (let f = expanduser w
                (strip_py (if startswith config_file ''/'' then config_file
                           else getcwd w @ ''/'' @ config_file))
      in (case import_module (w\<lparr>sys_path := dirname f # sys_path w\<rparr>) (basename f) of
            Inl e \<Rightarrow> debug_error (''Unable to read configuration file: '' @ f)
          | Inr r \<Rightarrow> Inr r))"

text \<open>The loop of \<^verbatim>\<open>read_config\<close>, lines 200 to 206.\<close>

fun merge_config :: "pydict \<Rightarrow> pymodule \<Rightarrow> pydict" where
  "merge_config d [] = d"
| "merge_config d ((k, v) # kvs) =
     merge_config (if d k = None \<or> k = ''tech_name'' then d(k \<mapsto> v) else d) kvs"


text \<open>Lines 209 to 212.\<close>

definition normalize_output_path :: "world \<Rightarrow> error + world" where
  "normalize_output_path w =
     sbind (add_trailing_slash w ''output_path'') (\<lambda>w1.
       sbind (getattr w1 ''output_path'') (\<lambda>v.
         sbind (str_method ''startswith'' v) (\<lambda>s.
           Inr (if startswith s ''/'' then w1
                else setattr w1 ''output_path'' (PStr (getcwd w1 @ ''/'' @ s))))))"

fun getattrs :: "world \<Rightarrow> string list \<Rightarrow> error + pyval list" where
  "getattrs w [] = Inr []"
| "getattrs w (k # ks) =
     sbind (getattr w k) (\<lambda>v. sbind (getattrs w ks) (\<lambda>vs. Inr (v # vs)))"

text \<open>Lines 223 to 230, the default of \<^verbatim>\<open>output_name\<close>.\<close>

definition default_output_name :: "world \<Rightarrow> error + world" where
  "default_output_name w =
     sbind (getattr w ''output_name'') (\<lambda>v.
       if v = PStr [] then
         sbind (getattrs w [''word_size'', ''num_words'', ''num_banks'', ''num_rw_ports'',
                            ''num_w_ports'', ''num_r_ports'', ''tech_name'']) (\<lambda>vs.
           Inr (setattr w ''output_name''
                  (PStr (''sram_'' @ py_str w (vs ! 0) @ ''b_'' @ py_str w (vs ! 1)
                         @ ''w_'' @ py_str w (vs ! 2) @ ''bank_'' @ py_str w (vs ! 3)
                         @ ''rw_'' @ py_str w (vs ! 4) @ ''w_'' @ py_str w (vs ! 5)
                         @ ''r_'' @ py_str w (vs ! 6)))))
       else Inr w)"

text \<open>
  Lines 234 to 240. An \<^verbatim>\<open>OSError\<close> is handled by the first clause whatever its
  \<^verbatim>\<open>errno\<close>; the second clause sees only what is not an \<^verbatim>\<open>OSError\<close>.
\<close>

definition make_output_dir :: "world \<Rightarrow> error + world" where
  "make_output_dir w =
     sbind (getattr w ''output_path'') (\<lambda>v.
       case v of
         PStr p \<Rightarrow>
           (case makedirs w p 488 of
              Inr w' \<Rightarrow> Inr w'
            | Inl (OSError e) \<Rightarrow> if e = 17 then chmod w p 488 else Inr w
            | Inl other \<Rightarrow> debug_error ''Unable to make output directory.'')
       | other \<Rightarrow> debug_error ''Unable to make output directory.'')"

definition read_config :: "world \<Rightarrow> string \<Rightarrow> bool \<Rightarrow> error + world" where
  "read_config w config_file is_unit_test =
     sbind (load_config w config_file) (\<lambda>r.
       sbind (normalize_output_path (snd r\<lparr>opts := merge_config (opts (snd r)) (fst r)\<rparr>)) (\<lambda>w1.
         sbind (getattr (setattr w1 ''is_unit_test'' (PBool is_unit_test)) ''netlist_only'') (\<lambda>n.
           sbind (default_output_name
                    (if truthy w1 n
                     then setattr (setattr w1 ''is_unit_test'' (PBool is_unit_test))
                            ''check_lvsdrc'' (PBool False)
                     else setattr w1 ''is_unit_test'' (PBool is_unit_test)))
             make_output_dir)))"

subsection \<open>\<^verbatim>\<open>import_tech\<close>\<close>

definition openram_tech :: "world \<Rightarrow> error + string" where
  "openram_tech w =
     (case environ w ''OPENRAM_TECH'' of
        None \<Rightarrow> debug_error ''$OPENRAM_TECH is not properly defined.''
      | Some h \<Rightarrow>
          sbind (debug_check (isdir w (abspath w h))
                   (''$OPENRAM_TECH does not exist: '' @ abspath w h))
            (\<lambda>u. Inr (abspath w h)))"

text \<open>
  Lines 342 to 352. Only \<^verbatim>\<open>ImportError\<close> is caught; \<^verbatim>\<open>format\<close> writes an unset
  variable as \<^verbatim>\<open>None\<close>.
\<close>

definition import_setup_script :: "world \<Rightarrow> string \<Rightarrow> error + world" where
  "import_setup_script w tech =
     (let path = (case environ w ''OPENRAM_TECH'' of None \<Rightarrow> ''None'' | Some h \<Rightarrow> h)
                 @ ''/setup_scripts''
      in sbind (debug_check (isdir w path) (''OPENRAM_TECH does not exist: '' @ path)) (\<lambda>u.
           case import_module (w\<lparr>sys_path := sys_path w @ [abspath w path]\<rparr>)
                  (''setup_openram_'' @ tech) of
             Inl (ImportError n) \<Rightarrow>
               debug_error (''Nonexistent technology_setup_file: setup_openram_'' @ tech @ ''.py'')
           | Inl e \<Rightarrow> Inl e
           | Inr r \<Rightarrow> Inr (snd r)))"

text \<open>One of the three defaults of lines 356 to 361.\<close>

definition tech_default :: "world \<Rightarrow> string \<Rightarrow> string \<Rightarrow> error + world" where
  "tech_default w k spice_key =
     sbind (getattr w k) (\<lambda>v.
       if v = PStr [] then
         (case tech_spice w spice_key of
            None \<Rightarrow> Inl (KeyError spice_key)
          | Some x \<Rightarrow> Inr (setattr w k x))
       else Inr w)"

definition import_tech :: "world \<Rightarrow> error + world" where
  "import_tech w =
     sbind (getattr w ''tech_name'') (\<lambda>tv.
       case tv of
         PStr tech \<Rightarrow>
           sbind (openram_tech w) (\<lambda>root.
             sbind (add_trailing_slash (setattr w ''openram_tech'' (PStr (root @ ''/'' @ tech)))
                      ''openram_tech'') (\<lambda>w1.
               sbind (import_setup_script w1 tech) (\<lambda>w2.
                 sbind (import_module w2 ''tech'') (\<lambda>r.
                   sbind (tech_default (snd r) ''process_corners'' ''fet_models'') (\<lambda>w3.
                     sbind (tech_default w3 ''supply_voltages'' ''supply_voltages'') (\<lambda>w4.
                       tech_default w4 ''temperatures'' ''temperatures''))))))
       | other \<Rightarrow> Inl TypeError)"

subsection \<open>\<^verbatim>\<open>init_openram\<close> and \<^verbatim>\<open>report_status\<close>\<close>

text \<open>
  \<^verbatim>\<open>copy.copy(OPTS)\<close> makes a new object whose attribute dictionary is a new
  dictionary with the same values: a reference in it is the reference in
  \<^verbatim>\<open>OPTS\<close>. The restore, \<^verbatim>\<open>CHECKPOINT_OPTS.__dict__.copy()\<close>, does the same in
  the other direction.
\<close>

definition init_openram :: "world \<Rightarrow> string \<Rightarrow> bool \<Rightarrow> error + world" where
  "init_openram w config_file is_unit_test =
     sbind (check_versions w) (\<lambda>w0.
       sbind (setup_paths w0) (\<lambda>w1.
         sbind (read_config w1 config_file is_unit_test) (\<lambda>w2.
           sbind (import_tech w2) (\<lambda>w3.
             sbind (import_module w3 ''hierarchy_design'') (\<lambda>h.
               case (if is_unit_test then checkpoint (snd h) else None) of
                 Some saved \<Rightarrow> Inr (snd h\<lparr>opts := saved, name_map := []\<rparr>)
               | None \<Rightarrow>
                   sbind (import_module (snd h\<lparr>name_map := []\<rparr>) ''characterizer'') (\<lambda>c.
                     sbind (import_module (snd c) ''verify'') (\<lambda>v.
                       Inr (case checkpoint (snd v) of
                              None \<Rightarrow> snd v\<lparr>checkpoint := Some (opts (snd v))\<rparr>
                            | Some saved \<Rightarrow> snd v))))))))"


text \<open>
  \<^verbatim>\<open>print_banner\<close> and \<^verbatim>\<open>print_time\<close> only write to \<^verbatim>\<open>stdout\<close>, and
  \<^verbatim>\<open>end_openram\<close> is \<^verbatim>\<open>cleanup_paths\<close> followed by printing; they add nothing
  to the state and have no definition of their own.
\<close>

section \<open>Notions used to state the properties\<close>





text \<open>
  Two states agree on the checkpoint when \<^verbatim>\<open>CHECKPOINT_OPTS\<close> is the same
  dictionary in both and no object of the heap differs.
\<close>

definition same_checkpoint :: "world \<Rightarrow> world \<Rightarrow> bool" where
  "same_checkpoint w w' = (checkpoint w' = checkpoint w \<and> heap w' = heap w)"

text \<open>
  The technology the command line names: the argument of its last \<^verbatim>\<open>-t\<close>.
\<close>

fun supplied_tech :: "cli_opt list \<Rightarrow> string option" where
  "supplied_tech [] = None"
| "supplied_tech (x # xs) =
     (case supplied_tech xs of
        Some s \<Rightarrow> Some s
      | None \<Rightarrow> (case x of Tech s \<Rightarrow> Some s | other \<Rightarrow> None))"





text \<open>
  \<open>raises r e\<close>: the call whose result is \<open>r\<close> ended with the error \<open>e\<close>.
\<close>

definition raises :: "error + 'a \<Rightarrow> error \<Rightarrow> bool" where
  "raises r e = (case r of Inl x \<Rightarrow> x = e | Inr y \<Rightarrow> False)"

subsection \<open>An installation to run the functions on\<close>

text \<open>
  A small site: the installation and the technology library are both \<^verbatim>\<open>/h\<close>,
  two configuration scripts \<^verbatim>\<open>/c.py\<close> and \<^verbatim>\<open>/b.py\<close> lie in the root, \<^verbatim>\<open>/f\<close> is
  a regular file, and \<^verbatim>\<open>/bin\<close> holds one executable. The script \<^verbatim>\<open>b\<close> gives
  \<^verbatim>\<open>word_size\<close> as a string. The class attributes are those the functions read;
  the three technology defaults are lists in the heap, \<^verbatim>\<open>temperatures\<close> being
  \<^verbatim>\<open>[25]\<close>.
\<close>

definition site_fs :: node where
  "site_fs = Dir 493
     [(''h'', Dir 493 [(''gdsMill'', Dir 493 []), (''tests'', Dir 493 []), (''modules'', Dir 493 []),
                       (''base'', Dir 493 []), (''pgates'', Dir 493 []),
                       (''setup_scripts'', Dir 493 [])]),
      (''bin'', Dir 493 [(''hspice'', File 420), (''ngspice'', File 493)]),
      (''f'', File 420)]"

definition site_modules :: "string \<Rightarrow> string \<rightharpoonup> (error + pymodule)" where
  "site_modules d n =
     (if d = ''/'' \<and> n = ''c'' then
        Some (Inr [(''tech_name'', PStr ''s''), (''output_path'', PStr ''/tmp/y''),
                   (''spice_name'', PStr ''hspice''), (''word_size'', PInt 8)])
      else if d = ''/'' \<and> n = ''b'' then
        Some (Inr [(''tech_name'', PStr ''s''), (''word_size'', PStr ''eight'')])
      else if d = ''/h/setup_scripts'' \<and> n = ''setup_openram_s'' then Some (Inr [])
      else if d = ''/h/base'' \<and> n \<in> {''tech'', ''hierarchy_design'', ''characterizer'', ''verify''}
      then Some (Inr [])
      else None)"

definition site :: world where
  "site = \<lparr>opts = Map.empty,
     class_defaults = [''tech_name'' \<mapsto> PStr [], ''output_path'' \<mapsto> PStr ''/o'',
        ''output_name'' \<mapsto> PStr ''sram'', ''openram_temp'' \<mapsto> PStr ''/t'',
        ''purge_temp'' \<mapsto> PBool True, ''netlist_only'' \<mapsto> PBool False,
        ''check_lvsdrc'' \<mapsto> PBool True, ''process_corners'' \<mapsto> PStr [],
        ''supply_voltages'' \<mapsto> PStr [], ''temperatures'' \<mapsto> PStr []],
     checkpoint = None,
     heap = [0 \<mapsto> [PInt 25], 1 \<mapsto> [PStr ''TT''], 2 \<mapsto> [PInt 5]], obj_str = (\<lambda>a. ''[...]''),
     environ = [''OPENRAM_HOME'' \<mapsto> ''/h'', ''OPENRAM_TECH'' \<mapsto> ''/h'', ''PATH'' \<mapsto> ''/h:/bin''],
     passwd = Map.empty, cwd = [], umask = 18, fs = site_fs, sys_path = [],
     sys_modules = Map.empty, module_files = site_modules, executed = [],
     tech_spice = [''fet_models'' \<mapsto> PObj 1, ''supply_voltages'' \<mapsto> PObj 2, ''temperatures'' \<mapsto> PObj 0],
     name_map = [], py_version = (3, 8)\<rparr>"

text \<open>
  The same site after a command line that sets three options; with the temporary
  and the output directory asked for below the regular file; with a temporary
  directory that holds a file, a dangling link and a directory; and the last
  with purging switched off. \<open>booted\<close> is the state the first bootstrap leaves.
\<close>

definition cli_site :: world where
  "cli_site = site\<lparr>opts := [''tech_name'' \<mapsto> PStr ''freepdk45'', ''output_path'' \<mapsto> PStr ''/tmp/x'',
                            ''spice_name'' \<mapsto> PStr ''ngspice'']\<rparr>"

definition under_file :: world where
  "under_file = site\<lparr>opts := [''openram_temp'' \<mapsto> PStr ''/f/t'', ''output_path'' \<mapsto> PStr ''/f/o'']\<rparr>"



definition booted :: world where
  "booted = projr (init_openram site ''/c'' False)"

section \<open>Lemmas\<close>

subsection \<open>Results and states\<close>

lemma sbind_Inr_iff: "sbind m f = Inr y \<longleftrightarrow> (\<exists>x. m = Inr x \<and> f x = Inr y)"
  by (cases m) (simp_all add: sbind_def)

lemma sbind_Inr [simp]: "sbind (Inr x) f = f x"
  by (simp add: sbind_def)

lemma sbind_Inl [simp]: "sbind (Inl e) f = Inl e"
  by (simp add: sbind_def)

lemma not_isl_collapse: "\<not> isl x \<Longrightarrow> x = Inr (projr x)"
  by simp

lemma not_isl_pair: "\<not> isl x \<Longrightarrow> x = Inr (fst (projr x), snd (projr x))"
  by simp

lemma getattr_setattr: "getattr (setattr w k v) k' = (if k' = k then Inr v else getattr w k')"
  by (simp add: getattr_def setattr_def split: option.splits)



lemma getattr_opts_Some: "opts w k = Some v \<Longrightarrow> getattr w k = Inr v"
  by (simp add: getattr_def)

lemma opts_setattr: "opts (setattr w k v) k' = (if k' = k then Some v else opts w k')"
  by (simp add: setattr_def)

lemma setattr_fs [simp]: "fs (setattr w k v) = fs w"
  by (simp add: setattr_def)

lemma getcwd_setattr: "getcwd (setattr w k v) = getcwd w"
  by (simp add: getcwd_def setattr_def)

lemma resolve_fs_update [simp]: "resolve (w\<lparr>fs := f\<rparr>) p = resolve w p"
  by (simp add: resolve_def)

subsection \<open>Calls that touch the file system only\<close>

lemma mkdir_frame: "mkdir w p m = Inr w' \<Longrightarrow> w' = w\<lparr>fs := fs w'\<rparr>"
  by (auto simp: mkdir_def split: if_splits sum.splits list.splits node.splits)

lemma chmod_frame: "chmod w p m = Inr w' \<Longrightarrow> w' = w\<lparr>fs := fs w'\<rparr>"
  by (auto simp: chmod_def split: sum.splits)

lemma remove_frame: "remove w p = Inr w' \<Longrightarrow> w' = w\<lparr>fs := fs w'\<rparr>"
  by (auto simp: remove_def split: if_splits sum.splits node.splits)

lemma rmtree_frame: "rmtree w p = Inr w' \<Longrightarrow> w' = w\<lparr>fs := fs w'\<rparr>"
  by (auto simp: rmtree_def split: if_splits sum.splits node.splits)

lemma frame_trans: "w1 = w\<lparr>fs := fs w1\<rparr> \<Longrightarrow> w2 = w1\<lparr>fs := fs w2\<rparr> \<Longrightarrow> w2 = w\<lparr>fs := fs w2\<rparr>"
  by (metis world.surjective world.update_convs(10) world.select_convs(10))

lemma makedirs_frame: "makedirs w name m = Inr w' \<Longrightarrow> w' = w\<lparr>fs := fs w'\<rparr>"
proof (induction w name m arbitrary: w' rule: makedirs.induct)
  case (1 w name m)
  show ?case
  proof (cases "fst (makedirs_split name) \<noteq> [] \<and> snd (makedirs_split name) \<noteq> []
         \<and> \<not> path_exists w (fst (makedirs_split name))")
    case False
    then have "mkdir w name m = Inr w'"
      using "1.prems" by (subst (asm) makedirs.simps) auto
    then show ?thesis by (rule mkdir_frame)
  next
    case True
    let ?r = "makedirs w (fst (makedirs_split name)) (if 7 \<le> snd (py_version w) then 511 else m)"
    show ?thesis
    proof (cases ?r)
      case (Inl e)
      then have "w' = w \<or> mkdir w name m = Inr w'"
        using "1.prems" True by (subst (asm) makedirs.simps) (auto split: if_splits)
      then show ?thesis using mkdir_frame by auto
    next
      case (Inr w1)
      have f1: "w1 = w\<lparr>fs := fs w1\<rparr>"
        using "1.IH" True Inr by blast
      have "w' = w1 \<or> mkdir w1 name m = Inr w'"
        using "1.prems" True Inr by (subst (asm) makedirs.simps) (auto split: if_splits)
      then have "w' = w1\<lparr>fs := fs w'\<rparr>"
        using mkdir_frame by auto
      with f1 show ?thesis by (rule frame_trans)
    qed
  qed
qed

lemma purge_contents_frame: "purge_contents w xs = Inr w' \<Longrightarrow> w' = w\<lparr>fs := fs w'\<rparr>"
proof (induction xs arbitrary: w)
  case Nil
  then show ?case by simp
next
  case (Cons i rest)
  from Cons.prems obtain w1 where
    s: "(if isfile w i \<or> islink w i then remove w i else rmtree w i) = Inr w1"
    and r: "purge_contents w1 rest = Inr w'"
    by (auto simp: sbind_Inr_iff)
  have "w1 = w\<lparr>fs := fs w1\<rparr>"
    using s remove_frame rmtree_frame by (auto split: if_splits)
  moreover have "w' = w1\<lparr>fs := fs w'\<rparr>" using r by (rule Cons.IH)
  ultimately show ?case by (rule frame_trans)
qed

lemma cleanup_paths_frame: "cleanup_paths w = Inr w' \<Longrightarrow> w' = w\<lparr>fs := fs w'\<rparr>"
  by (auto simp: cleanup_paths_def sbind_Inr_iff split: if_splits pyval.splits dest: purge_contents_frame)

lemma make_output_dir_frame:
  assumes "make_output_dir w = Inr w'"
  shows "w' = w\<lparr>fs := fs w'\<rparr>"
proof -
  from assms obtain v where v: "getattr w ''output_path'' = Inr v"
    and c: "(case v of
         PStr p \<Rightarrow>
           (case makedirs w p 488 of
              Inr w' \<Rightarrow> Inr w'
            | Inl (OSError e) \<Rightarrow> if e = 17 then chmod w p 488 else Inr w
            | Inl other \<Rightarrow> debug_error ''Unable to make output directory.'')
       | other \<Rightarrow> debug_error ''Unable to make output directory.'') = Inr w'"
    unfolding make_output_dir_def sbind_Inr_iff by auto
  from c obtain p where p: "v = PStr p"
    by (cases v) (simp_all add: debug_error_def)
  show ?thesis
  proof (cases "makedirs w p 488")
    case (Inr w1)
    then have "w' = w1" using c p by simp
    then show ?thesis using Inr makedirs_frame by blast
  next
    case (Inl e)
    then have "chmod w p 488 = Inr w' \<or> w' = w"
      using c p by (cases e) (auto simp: debug_error_def split: if_splits)
    then show ?thesis using chmod_frame by auto
  qed
qed

lemma make_temp_dir_frame:
  assumes "make_temp_dir w = Inr w'"
  shows "w' = w\<lparr>fs := fs w'\<rparr>"
proof -
  from assms obtain v where v: "getattr w ''openram_temp'' = Inr v"
    and c: "(case v of
         PStr p \<Rightarrow>
           (case makedirs w p 488 of
              Inr w' \<Rightarrow> Inr w'
            | Inl (OSError e) \<Rightarrow> if e = 17 then chmod w p 488 else Inr w
            | Inl other \<Rightarrow> Inl other)
       | other \<Rightarrow> Inl TypeError) = Inr w'"
    unfolding make_temp_dir_def sbind_Inr_iff by auto
  from c obtain p where p: "v = PStr p"
    by (cases v) simp_all
  show ?thesis
  proof (cases "makedirs w p 488")
    case (Inr w1)
    then have "w' = w1" using c p by simp
    then show ?thesis using Inr makedirs_frame by blast
  next
    case (Inl e)
    then have "chmod w p 488 = Inr w' \<or> w' = w"
      using c p by (cases e) (auto split: if_splits)
    then show ?thesis using chmod_frame by auto
  qed
qed

subsection \<open>The merge\<close>

lemma merge_config_absent: "k \<notin> fst ` set kvs \<Longrightarrow> merge_config d kvs k = d k"
  by (induction kvs arbitrary: d) auto

lemma merge_config_present:
  "d k = Some x \<Longrightarrow> k \<noteq> ''tech_name'' \<Longrightarrow> merge_config d kvs k = Some x"
proof (induction kvs arbitrary: d)
  case Nil
  then show ?case by simp
next
  case (Cons kv kvs)
  obtain k' v' where kv: "kv = (k', v')" by (cases kv)
  let ?d = "if d k' = None \<or> k' = ''tech_name'' then d(k' \<mapsto> v') else d"
  have "?d k = Some x"
    using Cons.prems by auto
  then have "merge_config ?d kvs k = Some x"
    using Cons.prems(2) by (rule Cons.IH)
  then show ?case by (simp add: kv)
qed


lemma merge_config_tech_name:
  "distinct (map fst kvs) \<Longrightarrow> (''tech_name'', v) \<in> set kvs
   \<Longrightarrow> merge_config d kvs ''tech_name'' = Some v"
proof (induction kvs arbitrary: d)
  case Nil
  then show ?case by simp
next
  case (Cons kv kvs)
  obtain k x where kv: "kv = (k, x)" by (cases kv)
  show ?case
  proof (cases "(''tech_name'', v) \<in> set kvs")
    case True
    then show ?thesis using Cons by (simp add: kv)
  next
    case False
    then have here: "k = ''tech_name''" "x = v" using Cons.prems(2) kv by auto
    have "''tech_name'' \<notin> fst ` set kvs" using Cons.prems(1) kv here by auto
    then show ?thesis by (simp add: kv here merge_config_absent)
  qed
qed

subsection \<open>Path names\<close>







lemma split_on_not_Nil [simp]: "split_on c xs \<noteq> []"
  by (induction xs) (auto split: list.splits)





subsection \<open>Walking and updating the tree\<close>





lemma walk_result_not_symlink:
  "walk n cs = Inr d \<Longrightarrow> \<not> is_symlink d"
  "walk_entries es0 c0 cs = Inr d \<Longrightarrow> \<not> is_symlink d"
  by (induction n cs and es0 c0 cs rule: walk_walk_entries.induct) (auto split: if_splits)






subsection \<open>The steps of \<^verbatim>\<open>read_config\<close>\<close>

lemma import_module_opts: "import_module w n = Inr (m, w') \<Longrightarrow> opts w' = opts w \<and> class_defaults w' = class_defaults w \<and> cwd w' = cwd w \<and> fs w' = fs w \<and> heap w' = heap w \<and> checkpoint w' = checkpoint w"
  by (auto simp: import_module_def split: if_splits option.splits sum.splits)

lemma load_config_opts: "load_config w cf = Inr (m, w') \<Longrightarrow> opts w' = opts w \<and> class_defaults w' = class_defaults w \<and> cwd w' = cwd w \<and> fs w' = fs w \<and> heap w' = heap w \<and> checkpoint w' = checkpoint w"
  by (auto simp: load_config_def Let_def debug_error_def split: sum.splits dest!: import_module_opts)

lemma add_trailing_slash_cases:
  "add_trailing_slash w k = Inr w' \<Longrightarrow>
     \<exists>s. getattr w k = Inr (PStr s) \<and> w' = (if endswith s ''/'' then w else setattr w k (PStr (s @ ''/'')))"
  by (auto simp: add_trailing_slash_def sbind_Inr_iff elim!: str_method.elims)

lemma normalize_output_path_cases:
  assumes "normalize_output_path w = Inr w'"
  shows "\<exists>s. getattr w ''output_path'' = Inr (PStr s) \<and>
       w' = (if startswith (if endswith s ''/'' then s else s @ ''/'') ''/''
             then (if endswith s ''/'' then w else setattr w ''output_path'' (PStr (s @ ''/'')))
             else setattr (if endswith s ''/'' then w else setattr w ''output_path'' (PStr (s @ ''/'')))
                    ''output_path'' (PStr (getcwd w @ ''/'' @ (if endswith s ''/'' then s else s @ ''/''))))"
proof -
  from assms obtain w1 v s1 where
    a: "add_trailing_slash w ''output_path'' = Inr w1"
    and g: "getattr w1 ''output_path'' = Inr v"
    and m: "str_method ''startswith'' v = Inr s1"
    and r: "w' = (if startswith s1 ''/'' then w1
                  else setattr w1 ''output_path'' (PStr (getcwd w1 @ ''/'' @ s1)))"
    unfolding normalize_output_path_def sbind_Inr_iff by auto
  from a obtain s where
    s: "getattr w ''output_path'' = Inr (PStr s)"
    and w1: "w1 = (if endswith s ''/'' then w else setattr w ''output_path'' (PStr (s @ ''/'')))"
    using add_trailing_slash_cases by blast
  have "getattr w1 ''output_path'' = Inr (PStr (if endswith s ''/'' then s else s @ ''/''))"
    using s by (simp add: w1 getattr_setattr)
  with g have "v = PStr (if endswith s ''/'' then s else s @ ''/'')" by simp
  with m have s1: "s1 = (if endswith s ''/'' then s else s @ ''/'')" by simp
  have cw: "getcwd w1 = getcwd w" by (simp add: w1 getcwd_setattr)
  have "w' = (if startswith s1 ''/'' then w1
               else setattr w1 ''output_path'' (PStr (getcwd w @ ''/'' @ s1)))"
    using r by (simp only: cw)
  then have "w' = (if startswith (if endswith s ''/'' then s else s @ ''/'') ''/''
             then (if endswith s ''/'' then w else setattr w ''output_path'' (PStr (s @ ''/'')))
             else setattr (if endswith s ''/'' then w else setattr w ''output_path'' (PStr (s @ ''/'')))
                    ''output_path'' (PStr (getcwd w @ ''/'' @ (if endswith s ''/'' then s else s @ ''/''))))"
    unfolding s1 w1 .
  with s show ?thesis by blast
qed


lemma default_output_name_cases:
  "default_output_name w = Inr w' \<Longrightarrow> w' = w \<or> (\<exists>v. w' = setattr w ''output_name'' v)"
  by (auto simp: default_output_name_def sbind_Inr_iff split: if_splits)

lemma read_config_steps:
  assumes "read_config w cf t = Inr w'"
  obtains config w1 w2 w4 w5 where
    "load_config w cf = Inr (config, w1)"
    "normalize_output_path (w1\<lparr>opts := merge_config (opts w1) config\<rparr>) = Inr w2"
    "w4 = setattr w2 ''is_unit_test'' (PBool t)
       \<or> w4 = setattr (setattr w2 ''is_unit_test'' (PBool t)) ''check_lvsdrc'' (PBool False)"
    "default_output_name w4 = Inr w5"
    "make_output_dir w5 = Inr w'"
proof -
  from assms obtain r w2 n where
    l: "load_config w cf = Inr r"
    and nz: "normalize_output_path (snd r\<lparr>opts := merge_config (opts (snd r)) (fst r)\<rparr>) = Inr w2"
    and d: "sbind (default_output_name
                    (if truthy w2 n
                     then setattr (setattr w2 ''is_unit_test'' (PBool t))
                            ''check_lvsdrc'' (PBool False)
                     else setattr w2 ''is_unit_test'' (PBool t)))
             make_output_dir = Inr w'"
    unfolding read_config_def sbind_Inr_iff by blast
  from d obtain w5 where
    d5: "default_output_name
                    (if truthy w2 n
                     then setattr (setattr w2 ''is_unit_test'' (PBool t))
                            ''check_lvsdrc'' (PBool False)
                     else setattr w2 ''is_unit_test'' (PBool t)) = Inr w5"
    and mk: "make_output_dir w5 = Inr w'"
    unfolding sbind_Inr_iff by blast
  show ?thesis
    by (rule that [of "fst r" "snd r" w2 _ w5, OF _ nz _ d5 mk]) (simp_all add: l)
qed

lemma read_config_getattr:
  assumes "read_config w cf t = Inr w'"
    and "k \<notin> {''output_path'', ''is_unit_test'', ''check_lvsdrc'', ''output_name''}"
  obtains config w1 where
    "load_config w cf = Inr (config, w1)"
    "opts w' k = merge_config (opts w) config k"
proof -
  from assms(1) obtain config w1 w2 w4 w5 where
    l: "load_config w cf = Inr (config, w1)"
    and nz: "normalize_output_path (w1\<lparr>opts := merge_config (opts w1) config\<rparr>) = Inr w2"
    and w4: "w4 = setattr w2 ''is_unit_test'' (PBool t)
       \<or> w4 = setattr (setattr w2 ''is_unit_test'' (PBool t)) ''check_lvsdrc'' (PBool False)"
    and d: "default_output_name w4 = Inr w5"
    and mk: "make_output_dir w5 = Inr w'"
    by (rule read_config_steps)
  have o1: "opts w1 = opts w" using l load_config_opts by blast
  have "opts w2 k = merge_config (opts w1) config k"
    using normalize_output_path_cases [OF nz] assms(2)
    by (auto simp: opts_setattr split: if_splits)
  moreover have "opts w4 k = opts w2 k"
    using w4 assms(2) by (auto simp: opts_setattr)
  moreover have "opts w5 k = opts w4 k"
    using default_output_name_cases [OF d] assms(2) by (auto simp: opts_setattr)
  moreover have "opts w' = opts w5"
    using make_output_dir_frame [OF mk] by (metis world.select_convs(1) world.surjective world.update_convs(10))
  ultimately have "opts w' k = merge_config (opts w) config k"
    by (simp add: o1)
  with l show ?thesis by (rule that)
qed




subsection \<open>The command line\<close>

lemma apply_opt_tech:
  "apply_opt w x = Inr w' \<Longrightarrow>
     getattr w' ''tech_name'' = (case x of Tech s \<Rightarrow> Inr (PStr s) | other \<Rightarrow> getattr w ''tech_name'')"
  by (cases x) (auto simp: getattr_setattr split: sum.splits pyval.splits)

lemma apply_opts_tech:
  "apply_opts w cli = Inr w' \<Longrightarrow>
     getattr w' ''tech_name''
       = (case supplied_tech cli of Some s \<Rightarrow> Inr (PStr s) | None \<Rightarrow> getattr w ''tech_name'')"
proof (induction cli arbitrary: w)
  case Nil
  then show ?case by simp
next
  case (Cons x xs)
  from Cons.prems obtain w1 where
    a: "apply_opt w x = Inr w1" and b: "apply_opts w1 xs = Inr w'"
    by (auto simp: sbind_Inr_iff)
  have "getattr w' ''tech_name''
       = (case supplied_tech xs of Some s \<Rightarrow> Inr (PStr s) | None \<Rightarrow> getattr w1 ''tech_name'')"
    using b by (rule Cons.IH)
  then show ?case
    using apply_opt_tech [OF a] by (cases x) (simp_all split: option.splits)
qed

lemma alias_tech_cases:
  assumes "alias_tech w = Inr w'"
  shows "\<exists>v. getattr w ''tech_name'' = Inr v \<and>
           (if v = PStr [] \<or> v = PStr ''scmos''
            then opts w' ''tech_name'' = Some (PStr ''scn3me_subm'')
            else w' = w)"
proof -
  from assms obtain v v1 where
    v: "getattr w ''tech_name'' = Inr v"
    and v1: "getattr (if v = PStr [] then setattr w ''tech_name'' (PStr ''scmos'') else w)
               ''tech_name'' = Inr v1"
    and w': "w' = (if v1 = PStr ''scmos''
                   then setattr (if v = PStr [] then setattr w ''tech_name'' (PStr ''scmos'') else w)
                          ''tech_name'' (PStr ''scn3me_subm'')
                   else (if v = PStr [] then setattr w ''tech_name'' (PStr ''scmos'') else w))"
    unfolding alias_tech_def sbind_Inr_iff Let_def by auto
  have "v1 = (if v = PStr [] then PStr ''scmos'' else v)"
    using v v1 by (auto simp: getattr_setattr split: if_splits)
  then have "if v = PStr [] \<or> v = PStr ''scmos''
            then opts w' ''tech_name'' = Some (PStr ''scn3me_subm'')
            else w' = w"
    by (auto simp: w' opts_setattr)
  with v show ?thesis by blast
qed

subsection \<open>The search for a tool\<close>

lemma find_in_dirs_find:
  "find_in_dirs w dirs n = map_option (\<lambda>d. join d n) (find (\<lambda>d. is_exe w (join d n)) dirs)"
  by (induction dirs) auto

lemma find_in_dirs_None:
  "find_in_dirs w dirs n = None \<longleftrightarrow> \<not> list_ex (\<lambda>d. is_exe w (join d n)) dirs"
  by (induction dirs) auto

lemma first_preference_find:
  assumes "environ w ''PATH'' = Some p"
  shows "first_preference w prefs =
     Inr (case find (\<lambda>n. list_ex (\<lambda>d. is_exe w (join d n)) (split_on CHR '':'' p)) prefs of
            None \<Rightarrow> (None, [])
          | Some n \<Rightarrow>
              (Some n, case find (\<lambda>d. is_exe w (join d n)) (split_on CHR '':'' p) of
                         Some d \<Rightarrow> join d n | None \<Rightarrow> []))"
proof (induction prefs)
  case Nil
  then show ?case by simp
next
  case (Cons n prefs)
  show ?case
  proof (cases "find_in_dirs w (split_on CHR '':'' p) n")
    case None
    then have nex: "\<not> list_ex (\<lambda>d. is_exe w (join d n)) (split_on CHR '':'' p)"
      by (simp add: find_in_dirs_None)
    show ?thesis
      by (simp add: find_exe_def assms None nex Cons)
  next
    case (Some exe)
    then have ex: "list_ex (\<lambda>d. is_exe w (join d n)) (split_on CHR '':'' p)"
      using find_in_dirs_None [of w "split_on CHR '':'' p" n] by simp
    from Some have "(case find (\<lambda>d. is_exe w (join d n)) (split_on CHR '':'' p) of
                         Some d \<Rightarrow> join d n | None \<Rightarrow> []) = exe"
      by (auto simp: find_in_dirs_find split: option.splits)
    then show ?thesis
      by (simp add: find_exe_def assms Some ex)
  qed
qed

subsection \<open>The purge loop\<close>



subsection \<open>What leaves the checkpoint alone\<close>

lemma same_checkpoint_refl [simp]: "same_checkpoint w w"
  by (simp add: same_checkpoint_def)


lemma same_checkpoint_setattr [simp]: "same_checkpoint w (setattr w k v)"
  by (simp add: same_checkpoint_def setattr_def)

lemma same_checkpoint_frame: "w' = w\<lparr>fs := f\<rparr> \<Longrightarrow> same_checkpoint w w'"
  by (simp add: same_checkpoint_def)

lemma same_checkpoint_import: "import_module w n = Inr r \<Longrightarrow> same_checkpoint w (snd r)"
  using import_module_opts [of w n "fst r" "snd r"] by (simp add: same_checkpoint_def)

lemma same_checkpoint_load: "load_config w cf = Inr r \<Longrightarrow> same_checkpoint w (snd r)"
  using load_config_opts [of w cf "fst r" "snd r"] by (simp add: same_checkpoint_def)

lemma same_checkpoint_slash: "add_trailing_slash w k = Inr w' \<Longrightarrow> same_checkpoint w w'"
  by (drule add_trailing_slash_cases) auto





lemma same_checkpoint_add_subdirs: "add_subdirs w home ds = Inr w' \<Longrightarrow> same_checkpoint w w'"
proof (induction ds arbitrary: w)
  case Nil
  then show ?case by simp
next
  case (Cons d ds)
  then have "add_subdirs (w\<lparr>sys_path := sys_path w @ [home @ ''/'' @ d]\<rparr>) home ds = Inr w'"
    by (auto simp: sbind_Inr_iff)
  then have "same_checkpoint (w\<lparr>sys_path := sys_path w @ [home @ ''/'' @ d]\<rparr>) w'"
    by (rule Cons.IH)
  then show ?case by (simp add: same_checkpoint_def)
qed

lemma same_checkpoint_cleanup: "cleanup_paths w = Inr w' \<Longrightarrow> same_checkpoint w w'"
  using cleanup_paths_frame same_checkpoint_frame by blast

lemma same_checkpoint_temp_dir: "make_temp_dir w = Inr w' \<Longrightarrow> same_checkpoint w w'"
  using make_temp_dir_frame same_checkpoint_frame by blast

lemma same_checkpoint_output_dir: "make_output_dir w = Inr w' \<Longrightarrow> same_checkpoint w w'"
  using make_output_dir_frame same_checkpoint_frame by blast

lemma same_checkpoint_setup_paths:
  assumes "setup_paths w = Inr w'"
  shows "same_checkpoint w w'"
proof -
  from assms obtain home w1 w2 w3 where
    a: "add_subdirs w home [''gdsMill'', ''tests'', ''modules'', ''base'', ''pgates''] = Inr w1"
    and b: "add_trailing_slash w1 ''openram_temp'' = Inr w2"
    and c: "cleanup_paths w2 = Inr w3"
    and d: "make_temp_dir w3 = Inr w'"
    unfolding setup_paths_def sbind_Inr_iff by blast
  note same_checkpoint_add_subdirs [OF a] same_checkpoint_slash [OF b]
    same_checkpoint_cleanup [OF c] same_checkpoint_temp_dir [OF d]
  then show ?thesis by (simp add: same_checkpoint_def)
qed

lemma same_checkpoint_normalize: "normalize_output_path w = Inr w' \<Longrightarrow> same_checkpoint w w'"
  by (drule normalize_output_path_cases) (auto split: if_splits simp: same_checkpoint_def setattr_def)

lemma same_checkpoint_output_name: "default_output_name w = Inr w' \<Longrightarrow> same_checkpoint w w'"
  by (drule default_output_name_cases) auto

lemma same_checkpoint_read_config:
  assumes "read_config w cf t = Inr w'"
  shows "same_checkpoint w w'"
proof -
  from assms obtain config w1 w2 w4 w5 where
    l: "load_config w cf = Inr (config, w1)"
    and nz: "normalize_output_path (w1\<lparr>opts := merge_config (opts w1) config\<rparr>) = Inr w2"
    and w4: "w4 = setattr w2 ''is_unit_test'' (PBool t)
       \<or> w4 = setattr (setattr w2 ''is_unit_test'' (PBool t)) ''check_lvsdrc'' (PBool False)"
    and d: "default_output_name w4 = Inr w5"
    and mk: "make_output_dir w5 = Inr w'"
    by (rule read_config_steps)
  have "same_checkpoint w w1" using same_checkpoint_load [OF l] by simp
  moreover have "same_checkpoint w1 (w1\<lparr>opts := merge_config (opts w1) config\<rparr>)"
    by (simp add: same_checkpoint_def)
  moreover note same_checkpoint_normalize [OF nz]
  moreover have "same_checkpoint w2 w4"
    using w4 by (auto simp: same_checkpoint_def setattr_def)
  moreover note same_checkpoint_output_name [OF d] same_checkpoint_output_dir [OF mk]
  ultimately show ?thesis
    by (simp add: same_checkpoint_def)
qed

lemma same_checkpoint_setup_script:
  "import_setup_script w tech = Inr w' \<Longrightarrow> same_checkpoint w w'"
  by (auto simp: import_setup_script_def Let_def sbind_Inr_iff debug_error_def same_checkpoint_def
      split: sum.splits error.splits dest!: import_module_opts)

lemma same_checkpoint_tech_default:
  "tech_default w k sk = Inr w' \<Longrightarrow> same_checkpoint w w'"
  by (auto simp: tech_default_def sbind_Inr_iff split: if_splits option.splits)

lemma same_checkpoint_import_tech:
  assumes "import_tech w = Inr w'"
  shows "same_checkpoint w w'"
proof -
  from assms obtain tv where
    a: "(case tv of
         PStr tech \<Rightarrow>
           sbind (openram_tech w) (\<lambda>root.
             sbind (add_trailing_slash (setattr w ''openram_tech'' (PStr (root @ ''/'' @ tech)))
                      ''openram_tech'') (\<lambda>w1.
               sbind (import_setup_script w1 tech) (\<lambda>w2.
                 sbind (import_module w2 ''tech'') (\<lambda>r.
                   sbind (tech_default (snd r) ''process_corners'' ''fet_models'') (\<lambda>w3.
                     sbind (tech_default w3 ''supply_voltages'' ''supply_voltages'') (\<lambda>w4.
                       tech_default w4 ''temperatures'' ''temperatures''))))))
       | other \<Rightarrow> Inl TypeError) = Inr w'"
    unfolding import_tech_def sbind_Inr_iff by blast
  then obtain tech where tv: "tv = PStr tech" by (cases tv) simp_all
  from a obtain root w1 w2 r w3 w4 where
    s1: "add_trailing_slash (setattr w ''openram_tech'' (PStr (root @ ''/'' @ tech))) ''openram_tech''
       = Inr w1"
    and s2: "import_setup_script w1 tech = Inr w2"
    and s3: "import_module w2 ''tech'' = Inr r"
    and s4: "tech_default (snd r) ''process_corners'' ''fet_models'' = Inr w3"
    and s5: "tech_default w3 ''supply_voltages'' ''supply_voltages'' = Inr w4"
    and s6: "tech_default w4 ''temperatures'' ''temperatures'' = Inr w'"
    unfolding tv pyval.case sbind_Inr_iff by blast
  note same_checkpoint_slash [OF s1] same_checkpoint_setup_script [OF s2]
    same_checkpoint_import [OF s3] same_checkpoint_tech_default [OF s4]
    same_checkpoint_tech_default [OF s5] same_checkpoint_tech_default [OF s6]
  then show ?thesis by (simp add: same_checkpoint_def setattr_def)
qed

lemma same_checkpoint_check_versions: "check_versions w = Inr w' \<Longrightarrow> w' = w"
  by (auto simp: check_versions_def debug_error_def split: if_splits)

lemma init_openram_steps:
  assumes "init_openram w cf t = Inr w'"
  obtains w1 w2 w3 h where
    "setup_paths w = Inr w1"
    "read_config w1 cf t = Inr w2"
    "import_tech w2 = Inr w3"
    "import_module w3 ''hierarchy_design'' = Inr h"
    "(\<exists>saved. t \<and> checkpoint (snd h) = Some saved \<and> w' = snd h\<lparr>opts := saved, name_map := []\<rparr>)
     \<or> ((\<not> t \<or> checkpoint (snd h) = None) \<and>
         (\<exists>c v. import_module (snd h\<lparr>name_map := []\<rparr>) ''characterizer'' = Inr c \<and>
                import_module (snd c) ''verify'' = Inr v \<and>
                w' = (case checkpoint (snd v) of
                        None \<Rightarrow> snd v\<lparr>checkpoint := Some (opts (snd v))\<rparr>
                      | Some saved \<Rightarrow> snd v)))"
proof -
  from assms obtain w0 w1 w2 w3 h where
    cv: "check_versions w = Inr w0"
    and sp: "setup_paths w0 = Inr w1"
    and rc: "read_config w1 cf t = Inr w2"
    and it: "import_tech w2 = Inr w3"
    and hd: "import_module w3 ''hierarchy_design'' = Inr h"
    and rest: "(case (if t then checkpoint (snd h) else None) of
                 Some saved \<Rightarrow> Inr (snd h\<lparr>opts := saved, name_map := []\<rparr>)
               | None \<Rightarrow>
                   sbind (import_module (snd h\<lparr>name_map := []\<rparr>) ''characterizer'') (\<lambda>c.
                     sbind (import_module (snd c) ''verify'') (\<lambda>v.
                       Inr (case checkpoint (snd v) of
                              None \<Rightarrow> snd v\<lparr>checkpoint := Some (opts (snd v))\<rparr>
                            | Some saved \<Rightarrow> snd v)))) = Inr w'"
    unfolding init_openram_def sbind_Inr_iff by blast
  have w0: "w0 = w" using cv by (rule same_checkpoint_check_versions)
  show ?thesis
  proof (cases "if t then checkpoint (snd h) else None")
    case (Some saved)
    then have "t \<and> checkpoint (snd h) = Some saved \<and> w' = snd h\<lparr>opts := saved, name_map := []\<rparr>"
      using rest by (auto split: if_splits)
    then show ?thesis
      using sp rc it hd that unfolding w0 by blast
  next
    case None
    then have nt: "\<not> t \<or> checkpoint (snd h) = None" by (auto split: if_splits)
    from rest None obtain c v where
      "import_module (snd h\<lparr>name_map := []\<rparr>) ''characterizer'' = Inr c"
      "import_module (snd c) ''verify'' = Inr v"
      "w' = (case checkpoint (snd v) of
                        None \<Rightarrow> snd v\<lparr>checkpoint := Some (opts (snd v))\<rparr>
                      | Some saved \<Rightarrow> snd v)"
      by (auto simp: sbind_Inr_iff)
    then show ?thesis
      using nt sp rc it hd that unfolding w0 by blast
  qed
qed


lemma init_openram_checkpoint:
  assumes "init_openram w cf t = Inr w'"
  shows "heap w' = heap w
         \<and> checkpoint w' = (case checkpoint w of None \<Rightarrow> Some (opts w') | Some saved \<Rightarrow> Some saved)
         \<and> (t \<and> checkpoint w \<noteq> None \<longrightarrow> Some (opts w') = checkpoint w)"
proof -
  from assms obtain w1 w2 w3 h where
    sp: "setup_paths w = Inr w1"
    and rc: "read_config w1 cf t = Inr w2"
    and it: "import_tech w2 = Inr w3"
    and hd: "import_module w3 ''hierarchy_design'' = Inr h"
    and fin: "(\<exists>saved. t \<and> checkpoint (snd h) = Some saved \<and> w' = snd h\<lparr>opts := saved, name_map := []\<rparr>)
     \<or> ((\<not> t \<or> checkpoint (snd h) = None) \<and>
         (\<exists>c v. import_module (snd h\<lparr>name_map := []\<rparr>) ''characterizer'' = Inr c \<and>
                import_module (snd c) ''verify'' = Inr v \<and>
                w' = (case checkpoint (snd v) of
                        None \<Rightarrow> snd v\<lparr>checkpoint := Some (opts (snd v))\<rparr>
                      | Some saved \<Rightarrow> snd v)))"
    by (rule init_openram_steps)
  note same_checkpoint_setup_paths [OF sp] same_checkpoint_read_config [OF rc]
    same_checkpoint_import_tech [OF it] same_checkpoint_import [OF hd]
  then have h: "checkpoint (snd h) = checkpoint w" "heap (snd h) = heap w"
    by (simp_all add: same_checkpoint_def)
  from fin show ?thesis
  proof
    assume "\<exists>saved. t \<and> checkpoint (snd h) = Some saved \<and> w' = snd h\<lparr>opts := saved, name_map := []\<rparr>"
    then show ?thesis using h by auto
  next
    assume b: "(\<not> t \<or> checkpoint (snd h) = None) \<and>
         (\<exists>c v. import_module (snd h\<lparr>name_map := []\<rparr>) ''characterizer'' = Inr c \<and>
                import_module (snd c) ''verify'' = Inr v \<and>
                w' = (case checkpoint (snd v) of
                        None \<Rightarrow> snd v\<lparr>checkpoint := Some (opts (snd v))\<rparr>
                      | Some saved \<Rightarrow> snd v))"
    then obtain c v where
      c: "import_module (snd h\<lparr>name_map := []\<rparr>) ''characterizer'' = Inr c"
      and v: "import_module (snd c) ''verify'' = Inr v"
      and w': "w' = (case checkpoint (snd v) of
                        None \<Rightarrow> snd v\<lparr>checkpoint := Some (opts (snd v))\<rparr>
                      | Some saved \<Rightarrow> snd v)"
      by blast
    note same_checkpoint_import [OF c] same_checkpoint_import [OF v]
    then have v': "checkpoint (snd v) = checkpoint w" "heap (snd v) = heap w"
      using h by (simp_all add: same_checkpoint_def)
    show ?thesis
      using b v' h by (cases "checkpoint w") (auto simp: w')
  qed
qed



subsection \<open>The directory steps\<close>













subsection \<open>Runs on the example site\<close>

lemma cli_site_read_config: "\<not> isl (read_config cli_site ''/c'' False)"
  by code_simp

lemma cli_site_load_config: "\<not> isl (load_config cli_site ''/c'')"
  by code_simp

lemma site_boots: "\<not> isl (init_openram site ''/c'' False)"
  by code_simp

lemma site_reads_b: "\<not> isl (read_config site ''/b'' False)"
  by code_simp

section \<open>Precedence of the command line\<close>

text \<open>
  C1. A key that the store holds before the configuration script is merged, and
  that is not \<^verbatim>\<open>tech_name\<close>, keeps its value through the merge, whatever the
  script binds it to. \<^verbatim>\<open>read_config\<close> as a whole keeps it as well, unless the key
  is one of the four that the lines after the merge assign themselves.
\<close>

theorem config_script_keeps_present_keys:
  assumes "opts w k = Some x" and "k \<noteq> ''tech_name''"
  shows "merge_config (opts w) config k = Some x
         \<and> (read_config w config_file is_unit_test = Inr w'
              \<and> k \<notin> {''output_path'', ''is_unit_test'', ''check_lvsdrc'', ''output_name''}
            \<longrightarrow> opts w' k = Some x)"
proof (intro conjI impI)
  show "merge_config (opts w) config k = Some x"
    using assms by (rule merge_config_present)
next
  assume a: "read_config w config_file is_unit_test = Inr w'
              \<and> k \<notin> {''output_path'', ''is_unit_test'', ''check_lvsdrc'', ''output_name''}"
  then obtain config' w1 where "opts w' k = merge_config (opts w) config' k"
    using read_config_getattr [of w config_file is_unit_test w' k] by blast
  then show "opts w' k = Some x"
    using assms by (simp add: merge_config_present)
qed

text \<open>
  On the site, \<^verbatim>\<open>-s ngspice\<close> stays although the script says \<^verbatim>\<open>hspice\<close>.
\<close>

theorem config_script_keeps_present_keys_witness:
  "opts cli_site ''spice_name'' = Some (PStr ''ngspice'')
   \<and> merge_config (opts cli_site) [(''spice_name'', PStr ''hspice'')] ''spice_name''
       = Some (PStr ''ngspice'')
   \<and> \<not> isl (read_config cli_site ''/c'' False)
   \<and> opts (projr (read_config cli_site ''/c'' False)) ''spice_name'' = Some (PStr ''ngspice'')"
proof -
  have a: "opts cli_site ''spice_name'' = Some (PStr ''ngspice'')"
    by (simp add: cli_site_def)
  have b: "''spice_name'' \<noteq> ''tech_name''" by simp
  note r = not_isl_collapse [OF cli_site_read_config]
  have k: "''spice_name'' \<notin> {''output_path'', ''is_unit_test'', ''check_lvsdrc'', ''output_name''}"
    by simp
  note t = config_script_keeps_present_keys [OF a b, of "[(''spice_name'', PStr ''hspice'')]"
      "''/c''" False "projr (read_config cli_site ''/c'' False)"]
  have "opts (projr (read_config cli_site ''/c'' False)) ''spice_name'' = Some (PStr ''ngspice'')"
    by (rule mp [OF conjunct2 [OF t] conjI [OF r k]])
  with a conjunct1 [OF t] cli_site_read_config show ?thesis by (intro conjI)
qed

text \<open>
  C2. When the script defines \<^verbatim>\<open>tech_name\<close>, a call of \<^verbatim>\<open>read_config\<close> that
  returns leaves the script's value in the store, whatever was there before.
  The items of a module's dictionary have distinct keys.
\<close>

theorem read_config_tech_name_from_script:
  assumes "read_config w config_file is_unit_test = Inr w'"
    and "load_config w config_file = Inr (config, w1)"
    and "distinct (map fst config)"
    and "(''tech_name'', v) \<in> set config"
  shows "opts w' ''tech_name'' = Some v"
proof -
  have "''tech_name'' \<notin> {''output_path'', ''is_unit_test'', ''check_lvsdrc'', ''output_name''}"
    by simp
  with assms(1) obtain config' w1' where
    "load_config w config_file = Inr (config', w1')"
    "opts w' ''tech_name'' = merge_config (opts w) config' ''tech_name''"
    by (rule read_config_getattr)
  with assms(2) have "opts w' ''tech_name'' = merge_config (opts w) config ''tech_name''"
    by simp
  then show ?thesis
    using assms(3,4) by (simp add: merge_config_tech_name)
qed

text \<open>
  On the site, \<^verbatim>\<open>-t freepdk45\<close> gives way to the script's \<^verbatim>\<open>s\<close>.
\<close>

theorem read_config_tech_name_from_script_witness:
  "opts cli_site ''tech_name'' = Some (PStr ''freepdk45'')
   \<and> (''tech_name'', PStr ''s'') \<in> set (fst (projr (load_config cli_site ''/c'')))
   \<and> \<not> isl (read_config cli_site ''/c'' False)
   \<and> opts (projr (read_config cli_site ''/c'' False)) ''tech_name'' = Some (PStr ''s'')"
proof -
  have a: "opts cli_site ''tech_name'' = Some (PStr ''freepdk45'')"
    by (simp add: cli_site_def)
  note r = not_isl_collapse [OF cli_site_read_config]
  note l = not_isl_pair [OF cli_site_load_config]
  have d: "distinct (map fst (fst (projr (load_config cli_site ''/c''))))"
    by code_simp
  have m: "(''tech_name'', PStr ''s'') \<in> set (fst (projr (load_config cli_site ''/c'')))"
    by code_simp
  note read_config_tech_name_from_script [OF r l d m]
  with a m cli_site_read_config show ?thesis by (intro conjI)
qed

section \<open>The checkpoint\<close>

text \<open>
  C3. The claim is that a call \<^verbatim>\<open>init_openram(config_file, True)\<close> made while a
  checkpoint exists never imports the configuration script, and returns with
  the store equal to the checkpoint. The comment of lines 126 to 130 and the
  docstring of \<^verbatim>\<open>read_config\<close> say the same, but line 115 calls \<^verbatim>\<open>read_config\<close>
  before line 131 looks at the checkpoint. On the site, the first bootstrap
  reads \<^verbatim>\<open>/c.py\<close> and captures the checkpoint; the second, a test bootstrap
  with \<^verbatim>\<open>/b.py\<close>, executes the script \<^verbatim>\<open>b\<close> and caches it as a module, and only
  then restores the store from the checkpoint.
\<close>

theorem init_openram_imports_despite_checkpoint:
  "case init_openram site ''/c'' False of
     Inl e \<Rightarrow> False
   | Inr w1 \<Rightarrow>
       (case init_openram w1 ''/b'' True of
          Inl e \<Rightarrow> False
        | Inr w2 \<Rightarrow>
            \<not> Option.is_none (checkpoint w1) \<and> ''b'' \<notin> set (executed w1)
            \<and> executed w2 = ''b'' # executed w1
            \<and> sys_modules w2 ''b''
                = Some [(''tech_name'', PStr ''s''), (''word_size'', PStr ''eight'')]
            \<and> map (opts w2) [''tech_name'', ''word_size'', ''output_path'']
                = map (the (checkpoint w1)) [''tech_name'', ''word_size'', ''output_path''])"
  by code_simp

text \<open>
  What the restore does hold to: a test bootstrap that finds a checkpoint and
  returns leaves the store equal to the checkpoint's dictionary, and the
  checkpoint in place.
\<close>

theorem init_openram_restores:
  assumes "init_openram w config_file True = Inr w'"
    and "checkpoint w = Some saved"
  shows "opts w' = saved \<and> checkpoint w' = Some saved"
  using init_openram_checkpoint [OF assms(1)] assms(2) by auto

text \<open>On the site, the test bootstrap with \<^verbatim>\<open>/b.py\<close> after the first one.\<close>

theorem init_openram_restores_witness:
  "checkpoint booted = Some (opts booted)
   \<and> \<not> isl (init_openram booted ''/b'' True)
   \<and> opts (projr (init_openram booted ''/b'' True)) = opts booted
   \<and> checkpoint (projr (init_openram booted ''/b'' True)) = Some (opts booted)"
proof -
  have c0: "checkpoint site = None" by (simp add: site_def)
  have b: "init_openram site ''/c'' False = Inr booted"
    unfolding booted_def by (rule not_isl_collapse [OF site_boots])
  have cb: "checkpoint booted = Some (opts booted)"
    using init_openram_checkpoint [OF b] c0 by simp
  have n: "\<not> isl (init_openram booted ''/b'' True)" by code_simp
  note t = init_openram_restores [OF not_isl_collapse [OF n] cb]
  from cb n conjunct1 [OF t] conjunct2 [OF t] show ?thesis by (intro conjI)
qed




section \<open>Validation and directories\<close>






text \<open>
  C7. The claim is that a failure of directory creation other than "already
  exists" is fatal, for the temporary and for the output directory. The
  handler of lines 236 to 238 (and of lines 305 to 307) catches every
  \<^verbatim>\<open>OSError\<close> and acts on \<^verbatim>\<open>EEXIST\<close> only, so the clause of lines 239 and 240
  that reports the failure is never reached by one, and \<^verbatim>\<open>setup_paths\<close> has no
  such clause. On the site, with both directories asked for below the regular
  file \<^verbatim>\<open>/f\<close>, \<^verbatim>\<open>os.makedirs\<close> fails with \<^verbatim>\<open>ENOTDIR\<close> both times, and both
  functions return as if nothing had happened: no directory, no error.
\<close>

theorem makedirs_failure_swallowed:
  "case setup_paths under_file of
     Inl e \<Rightarrow> False
   | Inr w1 \<Rightarrow>
       raises (makedirs w1 ''/f/t/'' 488) (OSError 20) \<and> fs w1 = fs under_file
       \<and> \<not> path_exists w1 ''/f/t/''
       \<and> (case read_config w1 ''/c'' False of
             Inl e \<Rightarrow> False
           | Inr w2 \<Rightarrow>
               getattr w2 ''output_path'' = Inr (PStr ''/f/o/'')
               \<and> raises (makedirs w2 ''/f/o/'' 488) (OSError 20) \<and> fs w2 = fs under_file
               \<and> \<not> path_exists w2 ''/f/o/'')"
  by code_simp

section \<open>Tools and names\<close>

text \<open>
  C8. The claim is that \<^verbatim>\<open>get_tool\<close> returns the first name of the preference
  list for which an executable file exists on the search path. \<^verbatim>\<open>is_exe\<close>, whose
  docstring says "an executable file that exists", tests \<^verbatim>\<open>os.path.exists\<close> and
  \<^verbatim>\<open>os.access(fpath, os.X_OK)\<close> and never \<^verbatim>\<open>os.path.isfile\<close>: a directory with
  the search bit passes. On the site, \<^verbatim>\<open>/h/base\<close> is a directory and
  \<^verbatim>\<open>/bin/ngspice\<close> an executable file; with the preferences \<^verbatim>\<open>base\<close>, \<^verbatim>\<open>ngspice\<close>
  the tool returned is the directory.
\<close>

theorem get_tool_returns_directory:
  "get_tool site ''spice'' [''base'', ''ngspice''] None = Inr (Some ''base'', ''/h/base'')
   \<and> isdir site ''/h/base'' \<and> \<not> isfile site ''/h/base''
   \<and> isfile site ''/bin/ngspice'' \<and> is_exe site ''/bin/ngspice''"
  by code_simp

text \<open>
  What \<^verbatim>\<open>get_tool\<close> does hold to, with \<^verbatim>\<open>is_exe\<close> as the code has it (the path
  exists and may be executed or, for a directory, searched). With a search
  path in the environment, \<^verbatim>\<open>get_tool\<close> without a default name returns the first
  name of the preference list that \<^verbatim>\<open>is_exe\<close> accepts in some directory of the
  path, with the path name in the first such directory, and returns
  \<^verbatim>\<open>(None, "")\<close> when there is none. With a default name, the result depends on
  that name alone, and its absence is fatal.
\<close>

theorem get_tool_preference_order:
  assumes "environ w ''PATH'' = Some p"
  shows "get_tool w tool_type preferences None =
           Inr (case find (\<lambda>n. list_ex (\<lambda>d. is_exe w (join d n)) (split_on CHR '':'' p))
                       preferences of
                  None \<Rightarrow> (None, [])
                | Some n \<Rightarrow>
                    (Some n, case find (\<lambda>d. is_exe w (join d n)) (split_on CHR '':'' p) of
                               Some d \<Rightarrow> join d n | None \<Rightarrow> []))
         \<and> (name \<noteq> [] \<longrightarrow>
              get_tool w tool_type preferences (Some name) =
                (case find (\<lambda>d. is_exe w (join d name)) (split_on CHR '':'' p) of
                   None \<Rightarrow> Inl (Fatal (name @ '' not found. Cannot find '' @ tool_type @ '' tool.''))
                 | Some d \<Rightarrow> Inr (Some name, join d name)))"
proof -
  have "get_tool w tool_type preferences None = first_preference w preferences"
    by (simp add: get_tool_def)
  moreover have "get_tool w tool_type preferences (Some name) =
                (case find (\<lambda>d. is_exe w (join d name)) (split_on CHR '':'' p) of
                   None \<Rightarrow> Inl (Fatal (name @ '' not found. Cannot find '' @ tool_type @ '' tool.''))
                 | Some d \<Rightarrow> Inr (Some name, join d name))" if "name \<noteq> []"
    using that assms
    by (simp add: get_tool_def find_exe_def find_in_dirs_find debug_error_def split: option.splits)
  ultimately show ?thesis
    using first_preference_find [OF assms] by simp
qed

text \<open>
  On the site: \<^verbatim>\<open>hspice\<close> is there but not executable, \<^verbatim>\<open>ngspice\<close> is found,
  \<^verbatim>\<open>xa\<close> is nowhere.
\<close>

theorem get_tool_preference_order_witness:
  "environ site ''PATH'' = Some ''/h:/bin''
   \<and> get_tool site ''spice'' [''hspice'', ''ngspice'', ''xa''] None
       = Inr (Some ''ngspice'', ''/bin/ngspice'')
   \<and> get_tool site ''spice'' [''xa''] None = Inr (None, [])
   \<and> get_tool site ''spice'' [''ngspice''] (Some ''xa'')
       = Inl (Fatal ''xa not found. Cannot find spice tool.'')"
proof -
  have p: "environ site ''PATH'' = Some ''/h:/bin''" by (simp add: site_def)
  note t = get_tool_preference_order [OF p]
  have e1: "Inr (case find (\<lambda>n. list_ex (\<lambda>d. is_exe site (join d n)) (split_on CHR '':'' ''/h:/bin''))
                       [''hspice'', ''ngspice'', ''xa''] of
                  None \<Rightarrow> (None, [])
                | Some n \<Rightarrow>
                    (Some n, case find (\<lambda>d. is_exe site (join d n)) (split_on CHR '':'' ''/h:/bin'') of
                               Some d \<Rightarrow> join d n | None \<Rightarrow> []))
            = (Inr (Some ''ngspice'', ''/bin/ngspice'') :: error + string option \<times> string)"
    by code_simp
  have e2: "Inr (case find (\<lambda>n. list_ex (\<lambda>d. is_exe site (join d n)) (split_on CHR '':'' ''/h:/bin''))
                       [''xa''] of
                  None \<Rightarrow> (None, [])
                | Some n \<Rightarrow>
                    (Some n, case find (\<lambda>d. is_exe site (join d n)) (split_on CHR '':'' ''/h:/bin'') of
                               Some d \<Rightarrow> join d n | None \<Rightarrow> []))
            = (Inr (None, []) :: error + string option \<times> string)"
    by code_simp
  have e3: "(case find (\<lambda>d. is_exe site (join d ''xa'')) (split_on CHR '':'' ''/h:/bin'') of
                   None \<Rightarrow> Inl (Fatal (''xa'' @ '' not found. Cannot find '' @ ''spice'' @ '' tool.''))
                 | Some d \<Rightarrow> Inr (Some ''xa'', join d ''xa''))
            = (Inl (Fatal ''xa not found. Cannot find spice tool.'') :: error + string option \<times> string)"
    by code_simp
  have n: "''xa'' \<noteq> []" by simp
  have g1: "get_tool site ''spice'' [''hspice'', ''ngspice'', ''xa''] None
       = Inr (Some ''ngspice'', ''/bin/ngspice'')"
    by (rule trans [OF conjunct1 [OF t] e1])
  have g2: "get_tool site ''spice'' [''xa''] None = Inr (None, [])"
    by (rule trans [OF conjunct1 [OF t] e2])
  have g3: "get_tool site ''spice'' [''ngspice''] (Some ''xa'')
       = Inl (Fatal ''xa not found. Cannot find spice tool.'')"
    by (rule trans [OF mp [OF conjunct2 [OF t] n] e3])
  from p g1 g2 g3 show ?thesis by (intro conjI)
qed



text \<open>
  C10. After \<^verbatim>\<open>parse_args\<close> has returned, \<^verbatim>\<open>OPTS.tech_name\<close> is not the empty
  string. It is \<^verbatim>\<open>scn3me_subm\<close> when the command line names no technology and
  the attribute is the empty string without it (the class attribute of
  \<^verbatim>\<open>options.options\<close>, a parameter here), and when the command line names
  \<^verbatim>\<open>scmos\<close>.
\<close>

theorem parse_args_tech_name:
  assumes "parse_args w cli args = Inr (w', a)"
  shows "getattr w' ''tech_name'' \<noteq> Inr (PStr []) \<and>
         (supplied_tech cli = None \<and> getattr w ''tech_name'' = Inr (PStr [])
            \<longrightarrow> opts w' ''tech_name'' = Some (PStr ''scn3me_subm'')) \<and>
         (supplied_tech cli = Some ''scmos''
            \<longrightarrow> opts w' ''tech_name'' = Some (PStr ''scn3me_subm''))"
proof -
  from assms obtain w1 where
    a: "apply_opts w cli = Inr w1" and b: "alias_tech w1 = Inr w'"
    unfolding parse_args_def sbind_Inr_iff by auto
  note t = apply_opts_tech [OF a]
  from alias_tech_cases [OF b] obtain v where
    v: "getattr w1 ''tech_name'' = Inr v"
    and c: "if v = PStr [] \<or> v = PStr ''scmos''
            then opts w' ''tech_name'' = Some (PStr ''scn3me_subm'')
            else w' = w1"
    by blast
  have "getattr w' ''tech_name'' \<noteq> Inr (PStr [])"
  proof (cases "v = PStr [] \<or> v = PStr ''scmos''")
    case True
    then have "getattr w' ''tech_name'' = Inr (PStr ''scn3me_subm'')"
      using c by (simp add: getattr_opts_Some)
    then show ?thesis by simp
  next
    case False
    then show ?thesis using c v by auto
  qed
  moreover have "opts w' ''tech_name'' = Some (PStr ''scn3me_subm'')"
    if "supplied_tech cli = None \<and> getattr w ''tech_name'' = Inr (PStr [])"
    using that t v c by auto
  moreover have "opts w' ''tech_name'' = Some (PStr ''scn3me_subm'')"
    if "supplied_tech cli = Some ''scmos''"
    using that t v c by auto
  ultimately show ?thesis by blast
qed

text \<open>
  On the site, without \<^verbatim>\<open>-t\<close> and with \<^verbatim>\<open>-v -t scmos\<close>.
\<close>

theorem parse_args_tech_name_witness:
  "\<not> isl (parse_args site [] [])
   \<and> opts (fst (projr (parse_args site [] []))) ''tech_name'' = Some (PStr ''scn3me_subm'')
   \<and> \<not> isl (parse_args site [Verbose, Tech ''scmos''] [''c''])
   \<and> opts (fst (projr (parse_args site [Verbose, Tech ''scmos''] [''c''])))
        ''tech_name'' = Some (PStr ''scn3me_subm'')"
proof -
  have n1: "\<not> isl (parse_args site [] [])" by code_simp
  have n2: "\<not> isl (parse_args site [Verbose, Tech ''scmos''] [''c''])" by code_simp
  have h1: "supplied_tech [] = None \<and> getattr site ''tech_name'' = Inr (PStr [])" by code_simp
  have h2: "supplied_tech [Verbose, Tech ''scmos''] = Some ''scmos''" by code_simp
  note t1 = parse_args_tech_name [OF not_isl_pair [OF n1]]
  note t2 = parse_args_tech_name [OF not_isl_pair [OF n2]]
  have "opts (fst (projr (parse_args site [] []))) ''tech_name'' = Some (PStr ''scn3me_subm'')"
    by (rule mp [OF conjunct1 [OF conjunct2 [OF t1]] h1])
  moreover have "opts (fst (projr (parse_args site [Verbose, Tech ''scmos''] [''c''])))
        ''tech_name'' = Some (PStr ''scn3me_subm'')"
    by (rule mp [OF conjunct2 [OF conjunct2 [OF t2]] h2])
  ultimately show ?thesis using n1 n2 by (intro conjI)
qed

end
